theory Spec2Isabelle
  imports Complex_Main "HOL-Library.Word"
begin

section \<open>Configuration item: cfg::CmafPublisher (config/items/cmaf_publisher.h)\<close>

text \<open>
  The C++ \<open>int\<close> members are 32-bit two's complement values, read with \<open>sint\<close>.
  The cross-domain member is kept as the list of its URLs.
\<close>

record CmafPublisher =
  segment_count :: "32 word"
  segment_duration :: "32 word"
  cross_domain :: "string list"
  thread_count :: "32 word"

text \<open>The member initialisers of the struct: the values of an unconfigured item.\<close>

definition CmafPublisher_init :: CmafPublisher where
  "CmafPublisher_init =
     \<lparr>segment_count = 3, segment_duration = 5, cross_domain = [], thread_count = 4\<rparr>"

definition GetSegmentCount :: "CmafPublisher \<Rightarrow> 32 word" where
  "GetSegmentCount c = segment_count c"

definition GetSegmentDuration :: "CmafPublisher \<Rightarrow> 32 word" where
  "GetSegmentDuration c = segment_duration c"

definition GetCrossDomains :: "CmafPublisher \<Rightarrow> string list" where
  "GetCrossDomains c = cross_domain c"

definition GetThreadCount :: "CmafPublisher \<Rightarrow> 32 word" where
  "GetThreadCount c = (if 0 < sint (thread_count c) then thread_count c else 1)"


section \<open>Data carried through the application (base/publisher/application.cpp)\<close>

text \<open>
  \<open>info::Stream\<close>, \<open>MediaPacket\<close> and \<open>MediaTrack\<close> are declared outside the two
  source files; only the members that application.cpp reads are kept. The stream id is
  the \<open>uint32_t\<close> key of the stream map. \<open>GetTrack\<close> looks a track up by id and yields
  a null pointer when there is none; the time base is represented by the value its
  \<open>GetExpr()\<close> yields, a C++ double idealised as a real number.
\<close>

record MediaTrack =
  time_base_expr :: real

record info_Stream =
  stream_id :: "32 word"
  stream_name :: string
  tracks :: "(int \<times> MediaTrack) list"

record MediaPacket =
  pts :: int
  packet_track_id :: int

definition GetId :: "info_Stream \<Rightarrow> 32 word" where
  "GetId i = stream_id i"

definition GetName :: "info_Stream \<Rightarrow> string" where
  "GetName i = stream_name i"

definition GetTrack :: "info_Stream \<Rightarrow> int \<Rightarrow> MediaTrack option" where
  "GetTrack i t = map_of (tracks i) t"

text \<open>
  A \<open>std::shared_ptr\<close> that may be null is an \<open>option\<close>. A live \<open>pub::Stream\<close> or
  \<open>Session\<close> object is known to the application only through its address.
\<close>

type_synonym stream_ref = nat
type_synonym session_ref = nat
type_synonym ov_Data = "8 word list"

record VideoStreamData =
  video_stream :: "info_Stream option"
  video_media_packet :: "MediaPacket option"

record AudioStreamData =
  audio_stream :: "info_Stream option"
  audio_media_packet :: "MediaPacket option"

record IncomingPacket =
  packet_session_info :: "session_ref option"
  packet_data :: "ov_Data option"


section \<open>The wake event\<close>

text \<open>
  Modelled from the spec: the type of \<open>_queue_event\<close> (its \<open>Notify\<close> and \<open>Wait\<close>) is
  declared outside the source files. The spec describes it as a payload-free
  "counting/binary notification primitive" that the dispatch loop blocks on and that
  producers signal. Both readings are kept: a counting event remembers every signal, a
  binary one remembers that there was one. \<open>Wait\<close> consumes a remembered signal and
  blocks (\<open>None\<close>) when there is none.
\<close>

datatype event_kind = Counting | Binary

record WakeEvent =
  kind :: event_kind
  pending :: nat

definition Event_Notify :: "WakeEvent \<Rightarrow> WakeEvent" where
  "Event_Notify e =
     (case kind e of
        Counting \<Rightarrow> e\<lparr>pending := Suc (pending e)\<rparr>
      | Binary \<Rightarrow> e\<lparr>pending := 1\<rparr>)"

definition Event_Wait :: "WakeEvent \<Rightarrow> WakeEvent option" where
  "Event_Wait e =
     (if pending e = 0 then None
      else (case kind e of
              Counting \<Rightarrow> Some (e\<lparr>pending := pending e - 1\<rparr>)
            | Binary \<Rightarrow> Some (e\<lparr>pending := 0\<rparr>)))"


section \<open>Application state and the trace of what it does\<close>

datatype mutex =
    StreamMapMutex | VideoQueueGuard | AudioQueueGuard | IncomingPacketQueueGuard

text \<open>
  Every lock operation, queue operation, registry mutation, signal and call that leaves
  the class is recorded, in program order, in a trace. The calls into the subclass
  (\<open>CreateStream\<close>, \<open>DeleteStream\<close>), into a \<open>Stream\<close> and into a \<open>Session\<close>, and
  the log lines, have no other effect on the application's own state.
\<close>

datatype event =
    Lock mutex
  | Unlock mutex
  | LockShared mutex
  | UnlockShared mutex
  | EventNotify
  | EventWait
  | ThreadSpawn
  | ThreadJoin
  | PushVideo VideoStreamData
  | PushAudio AudioStreamData
  | PushPacket IncomingPacket
  | MapStore "32 word" stream_ref
  | MapErase "32 word"
  | CallCreateStream "info_Stream option" "32 word"
  | CallDeleteStream "info_Stream option"
  | StreamStop stream_ref
  | StreamSendVideoFrame stream_ref "MediaPacket option"
  | StreamSendAudioFrame stream_ref "MediaPacket option"
  | SessionOnPacketReceived session_ref "ov_Data option"
  | LogCreated string string
  | LogDeleted string string
  | LogDeleteFailed string "32 word"
  | LogStats string "32 word" nat nat nat

datatype error =
    NullDereference
  | ThreadTerminate

text \<open>
  \<open>publisher\<close> is the owning publisher's name, \<open>None\<close> for a null \<open>_publisher\<close>.
  \<open>worker_thread\<close> is whether \<open>_worker_thread\<close> is joinable. \<open>config\<close> is what
  \<open>GetConfig()\<close> yields: its type is declared outside the source files, and the only
  \<open>GetThreadCount\<close> of the sources is the one above.
\<close>

record Application =
  publisher :: "string option"
  app_type_name :: string
  app_name :: string
  application_id :: "32 word"
  config :: CmafPublisher
  stop_thread_flag :: bool
  worker_thread :: bool
  queue_event :: WakeEvent
  streams :: "32 word \<rightharpoonup> stream_ref"
  video_stream_queue :: "VideoStreamData list"
  audio_stream_queue :: "AudioStreamData list"
  incoming_packet_queue :: "IncomingPacket list"
  last_video_ts_ms :: real
  last_audio_ts_ms :: real
  trace :: "event list"

text \<open>The two virtual hooks a concrete application supplies.\<close>

record Subclass =
  CreateStream :: "info_Stream option \<Rightarrow> 32 word \<Rightarrow> stream_ref option"
  DeleteStream :: "info_Stream option \<Rightarrow> bool"

definition emit :: "event \<Rightarrow> Application \<Rightarrow> Application" where
  "emit e a = a\<lparr>trace := trace a @ [e]\<rparr>"

text \<open>The constructor: no worker yet, stop flag cleared, everything else empty.\<close>

definition Application_new ::
  "string option \<Rightarrow> string \<Rightarrow> 32 word \<Rightarrow> CmafPublisher \<Rightarrow> event_kind \<Rightarrow> Application" where
  "Application_new p n i c k =
     \<lparr>publisher = p, app_type_name = [], app_name = n, application_id = i, config = c,
      stop_thread_flag = False, worker_thread = False,
      queue_event = \<lparr>kind = k, pending = 0\<rparr>, streams = Map.empty,
      video_stream_queue = [], audio_stream_queue = [], incoming_packet_queue = [],
      last_video_ts_ms = 0, last_audio_ts_ms = 0, trace = []\<rparr>"

definition GetApplicationTypeName :: "Application \<Rightarrow> string \<times> Application" where
  "GetApplicationTypeName a =
     (case publisher a of
        None \<Rightarrow> ([], a)
      | Some publisher_name \<Rightarrow>
          (let a1 = (if app_type_name a = []
                     then a\<lparr>app_type_name := publisher_name @ '' '' @ ''Application''\<rparr>
                     else a)
           in (app_type_name a1, a1)))"


section \<open>Starting the worker: Start\<close>

text \<open>
  \<open>Start\<close> clears the stop flag and move-assigns a new \<open>std::thread\<close> to
  \<open>_worker_thread\<close>. Move assignment to a thread object that is still joinable calls
  \<open>std::terminate\<close>; the source has no check before it.
\<close>

definition Start :: "Application \<Rightarrow> error + (bool \<times> Application)" where
  "Start a =
     (let a1 = a\<lparr>stop_thread_flag := False\<rparr> in
      if worker_thread a1 then Inl ThreadTerminate
      else
        (let a2 = emit ThreadSpawn (a1\<lparr>worker_thread := True\<rparr>);
             (type_name, a3) = GetApplicationTypeName a2;
             a4 = emit (LogCreated type_name (app_name a3)) a3
         in Inr (True, a4)))"


section \<open>Stream registry: OnCreateStream, OnDeleteStream, GetStream\<close>

definition OnCreateStream ::
  "Subclass \<Rightarrow> Application \<Rightarrow> info_Stream option \<Rightarrow> error + (bool \<times> Application)" where
  "OnCreateStream sub a info =
     (let worker_count = GetThreadCount (config a);
          a1 = emit (CallCreateStream info worker_count) a
      in case CreateStream sub info worker_count of
           None \<Rightarrow> Inr (False, a1)
         | Some stream \<Rightarrow>
             (let a2 = emit (Lock StreamMapMutex) a1
              in case info of
                   None \<Rightarrow> Inl NullDereference
                 | Some i \<Rightarrow>
                     (let a3 = emit (MapStore (GetId i) stream)
                                 (a2\<lparr>streams := (streams a2)(GetId i \<mapsto> stream)\<rparr>);
                          a4 = emit (Unlock StreamMapMutex) a3
                      in Inr (True, a4))))"

definition OnDeleteStream ::
  "Subclass \<Rightarrow> Application \<Rightarrow> info_Stream option \<Rightarrow> error + (bool \<times> Application)" where
  "OnDeleteStream sub a info =
     (let a1 = emit (Lock StreamMapMutex) a
      in case info of
           None \<Rightarrow> Inl NullDereference
         | Some i \<Rightarrow>
             (case streams a1 (GetId i) of
                None \<Rightarrow>
                  (let a2 = emit (LogDeleteFailed (GetName i) (GetId i)) a1;
                       a3 = emit (Unlock StreamMapMutex) a2
                   in Inr (False, a3))
              | Some stream \<Rightarrow>
                  (let a2 = emit (Unlock StreamMapMutex) a1;
                       a3 = emit (CallDeleteStream info) a2
                   in if DeleteStream sub info = False then Inr (False, a3)
                      else
                        (let a4 = emit (Lock StreamMapMutex) a3;
                             a5 = emit (MapErase (GetId i))
                                    (a4\<lparr>streams := (streams a4)(GetId i := None)\<rparr>);
                             a6 = emit (StreamStop stream) a5;
                             a7 = emit (Unlock StreamMapMutex) a6
                         in Inr (True, a7)))))"

definition GetStream :: "Application \<Rightarrow> 32 word \<Rightarrow> stream_ref option \<times> Application" where
  "GetStream a sid =
     (let a1 = emit (LockShared StreamMapMutex) a;
          a2 = emit (UnlockShared StreamMapMutex) a1
      in (streams a1 sid, a2))"


section \<open>Producers: OnSendVideoFrame, OnSendAudioFrame, PushIncomingPacket\<close>

text \<open>
  The item is pushed before the timestamp expression dereferences the packet, the
  stream and the track that \<open>GetTrack\<close> found; a null pointer among them is a fault.
\<close>

definition OnSendVideoFrame ::
  "Application \<Rightarrow> info_Stream option \<Rightarrow> MediaPacket option \<Rightarrow> error + (bool \<times> Application)" where
  "OnSendVideoFrame a stream media_packet =
     (let data = \<lparr>video_stream = stream, video_media_packet = media_packet\<rparr>;
          a1 = emit (Lock VideoQueueGuard) a;
          a2 = emit (PushVideo data) (a1\<lparr>video_stream_queue := video_stream_queue a1 @ [data]\<rparr>)
      in case media_packet of
           None \<Rightarrow> Inl NullDereference
         | Some p \<Rightarrow>
             (case stream of
                None \<Rightarrow> Inl NullDereference
              | Some s \<Rightarrow>
                  (case GetTrack s (packet_track_id p) of
                     None \<Rightarrow> Inl NullDereference
                   | Some t \<Rightarrow>
                       (let a3 = a2\<lparr>last_video_ts_ms :=
                                       real_of_int (pts p) * time_base_expr t * 1000\<rparr>;
                            a4 = emit (Unlock VideoQueueGuard) a3;
                            a5 = emit EventNotify
                                   (a4\<lparr>queue_event := Event_Notify (queue_event a4)\<rparr>)
                        in Inr (True, a5)))))"

definition OnSendAudioFrame ::
  "Application \<Rightarrow> info_Stream option \<Rightarrow> MediaPacket option \<Rightarrow> error + (bool \<times> Application)" where
  "OnSendAudioFrame a stream media_packet =
     (let data = \<lparr>audio_stream = stream, audio_media_packet = media_packet\<rparr>;
          a1 = emit (Lock AudioQueueGuard) a;
          a2 = emit (PushAudio data) (a1\<lparr>audio_stream_queue := audio_stream_queue a1 @ [data]\<rparr>)
      in case media_packet of
           None \<Rightarrow> Inl NullDereference
         | Some p \<Rightarrow>
             (case stream of
                None \<Rightarrow> Inl NullDereference
              | Some s \<Rightarrow>
                  (case GetTrack s (packet_track_id p) of
                     None \<Rightarrow> Inl NullDereference
                   | Some t \<Rightarrow>
                       (let a3 = a2\<lparr>last_audio_ts_ms :=
                                       real_of_int (pts p) * time_base_expr t * 1000\<rparr>;
                            a4 = emit (Unlock AudioQueueGuard) a3;
                            a5 = emit EventNotify
                                   (a4\<lparr>queue_event := Event_Notify (queue_event a4)\<rparr>)
                        in Inr (True, a5)))))"

definition PushIncomingPacket ::
  "Application \<Rightarrow> session_ref option \<Rightarrow> ov_Data option \<Rightarrow> bool \<times> Application" where
  "PushIncomingPacket a session_info data =
     (let packet = \<lparr>packet_session_info = session_info, packet_data = data\<rparr>;
          a1 = emit (Lock IncomingPacketQueueGuard) a;
          a2 = emit (PushPacket packet)
                 (a1\<lparr>incoming_packet_queue := incoming_packet_queue a1 @ [packet]\<rparr>);
          a3 = emit (Unlock IncomingPacketQueueGuard) a2;
          a4 = emit EventNotify (a3\<lparr>queue_event := Event_Notify (queue_event a3)\<rparr>)
      in (True, a4))"


section \<open>Consumer side: the Pop functions and the routing functions\<close>

definition PopVideoStreamData :: "Application \<Rightarrow> VideoStreamData option \<times> Application" where
  "PopVideoStreamData a =
     (let a1 = emit (Lock VideoQueueGuard) a
      in case video_stream_queue a1 of
           [] \<Rightarrow> (None, emit (Unlock VideoQueueGuard) a1)
         | data # rest \<Rightarrow>
             (Some data, emit (Unlock VideoQueueGuard) (a1\<lparr>video_stream_queue := rest\<rparr>)))"

definition PopAudioStreamData :: "Application \<Rightarrow> AudioStreamData option \<times> Application" where
  "PopAudioStreamData a =
     (let a1 = emit (Lock AudioQueueGuard) a
      in case audio_stream_queue a1 of
           [] \<Rightarrow> (None, emit (Unlock AudioQueueGuard) a1)
         | data # rest \<Rightarrow>
             (Some data, emit (Unlock AudioQueueGuard) (a1\<lparr>audio_stream_queue := rest\<rparr>)))"

definition PopIncomingPacket :: "Application \<Rightarrow> IncomingPacket option \<times> Application" where
  "PopIncomingPacket a =
     (let a1 = emit (Lock IncomingPacketQueueGuard) a
      in case incoming_packet_queue a1 of
           [] \<Rightarrow> (None, emit (Unlock IncomingPacketQueueGuard) a1)
         | packet # rest \<Rightarrow>
             (Some packet,
              emit (Unlock IncomingPacketQueueGuard) (a1\<lparr>incoming_packet_queue := rest\<rparr>)))"

definition SendVideoFrame ::
  "Application \<Rightarrow> info_Stream option \<Rightarrow> MediaPacket option \<Rightarrow> error + Application" where
  "SendVideoFrame a stream_info media_packet =
     (case stream_info of
        None \<Rightarrow> Inl NullDereference
      | Some i \<Rightarrow>
          (let (stream, a1) = GetStream a (GetId i)
           in case stream of
                None \<Rightarrow> Inr a1
              | Some s \<Rightarrow> Inr (emit (StreamSendVideoFrame s media_packet) a1)))"

definition SendAudioFrame ::
  "Application \<Rightarrow> info_Stream option \<Rightarrow> MediaPacket option \<Rightarrow> error + Application" where
  "SendAudioFrame a stream_info media_packet =
     (case stream_info of
        None \<Rightarrow> Inl NullDereference
      | Some i \<Rightarrow>
          (let (stream, a1) = GetStream a (GetId i)
           in case stream of
                None \<Rightarrow> Inr a1
              | Some s \<Rightarrow> Inr (emit (StreamSendAudioFrame s media_packet) a1)))"

text \<open>The session pointer is cast and dereferenced without a check.\<close>

definition OnPacketReceived ::
  "Application \<Rightarrow> session_ref option \<Rightarrow> ov_Data option \<Rightarrow> error + Application" where
  "OnPacketReceived a session_info data =
     (case session_info of
        None \<Rightarrow> Inl NullDereference
      | Some session \<Rightarrow> Inr (emit (SessionOnPacketReceived session data) a))"


section \<open>The dispatch loop: WorkerThread\<close>

text \<open>The three drain steps of the loop body, in the order of the source.\<close>

definition drain_video :: "Application \<Rightarrow> error + Application" where
  "drain_video a =
     (let (video_data, a1) = PopVideoStreamData a
      in case video_data of
           None \<Rightarrow> Inr a1
         | Some d \<Rightarrow>
             (if video_stream d \<noteq> None \<and> video_media_packet d \<noteq> None
              then SendVideoFrame a1 (video_stream d) (video_media_packet d)
              else Inr a1))"

definition drain_audio :: "Application \<Rightarrow> error + Application" where
  "drain_audio a =
     (let (audio_data, a1) = PopAudioStreamData a
      in case audio_data of
           None \<Rightarrow> Inr a1
         | Some d \<Rightarrow>
             (if audio_stream d \<noteq> None \<and> audio_media_packet d \<noteq> None
              then SendAudioFrame a1 (audio_stream d) (audio_media_packet d)
              else Inr a1))"

definition drain_packet :: "Application \<Rightarrow> error + Application" where
  "drain_packet a =
     (let (packet, a1) = PopIncomingPacket a
      in case packet of
           None \<Rightarrow> Inr a1
         | Some p \<Rightarrow> OnPacketReceived a1 (packet_session_info p) (packet_data p))"

text \<open>
  One pass through the body of the \<open>while\<close> loop. \<open>elapsed\<close> is the value of the
  stopwatch test at that moment. A pass that finds no signal to consume stays in
  \<open>Wait\<close>: it is \<open>Blocked\<close>.
\<close>

datatype step = Blocked Application | Stepped Application

definition log_stats :: "bool \<Rightarrow> Application \<Rightarrow> Application" where
  "log_stats elapsed a =
     (if elapsed
      then emit (LogStats (app_name a) (application_id a)
                   (length (video_stream_queue a))
                   (length (audio_stream_queue a))
                   (length (incoming_packet_queue a))) a
      else a)"

definition WorkerThread_body :: "bool \<Rightarrow> Application \<Rightarrow> error + step" where
  "WorkerThread_body elapsed a =
     (let a1 = log_stats elapsed a
      in case Event_Wait (queue_event a1) of
           None \<Rightarrow> Inr (Blocked a1)
         | Some e \<Rightarrow>
             (let a2 = emit EventWait (a1\<lparr>queue_event := e\<rparr>)
              in case drain_video a2 of
                   Inl x \<Rightarrow> Inl x
                 | Inr a3 \<Rightarrow>
                     (case drain_audio a3 of
                        Inl x \<Rightarrow> Inl x
                      | Inr a4 \<Rightarrow>
                          (case drain_packet a4 of
                             Inl x \<Rightarrow> Inl x
                           | Inr a5 \<Rightarrow> Inr (Stepped a5)))))"


text \<open>
  The loop itself: it leaves when it observes the stop flag at the top of an iteration.
  Run on its own, with no producer interleaved, it otherwise goes on until an iteration
  stays in \<open>Wait\<close>. \<open>stat_elapsed n\<close> is the stopwatch test of iteration \<open>n\<close>.
\<close>

datatype worker_end = Exited Application | Waiting Application

function WorkerThread :: "(nat \<Rightarrow> bool) \<Rightarrow> nat \<Rightarrow> Application \<Rightarrow> error + worker_end" where
  "WorkerThread stat_elapsed n a =
     (if stop_thread_flag a then Inr (Exited a)
      else (case WorkerThread_body (stat_elapsed n) a of
              Inl x \<Rightarrow> Inl x
            | Inr (Blocked a1) \<Rightarrow> Inr (Waiting a1)
            | Inr (Stepped a1) \<Rightarrow> WorkerThread stat_elapsed (Suc n) a1))"
  by pat_completeness auto


section \<open>Stopping the worker: Stop\<close>

text \<open>
  When \<open>Stop\<close> is called with a joinable worker, that worker is either about to test
  the stop flag at the top of the loop or inside \<open>Wait\<close>; a pass it has begun is
  completed first and brings it to the top of the loop. \<open>WorkerThread_from\<close> is the
  rest of its run from there. Inside \<open>Wait\<close> the stopwatch test of the pass is already
  behind it.
\<close>

datatype worker_position = AtLoopTest | InWait

definition WorkerThread_from ::
  "worker_position \<Rightarrow> (nat \<Rightarrow> bool) \<Rightarrow> nat \<Rightarrow> Application \<Rightarrow> error + worker_end" where
  "WorkerThread_from pos stat_elapsed n a =
     (case pos of
        AtLoopTest \<Rightarrow> WorkerThread stat_elapsed n a
      | InWait \<Rightarrow>
          (case WorkerThread_body False a of
             Inl x \<Rightarrow> Inl x
           | Inr (Blocked a1) \<Rightarrow> Inr (Waiting a1)
           | Inr (Stepped a1) \<Rightarrow> WorkerThread stat_elapsed (Suc n) a1))"

text \<open>The first two steps of \<open>Stop\<close>: the stop flag is set, then the wake event signalled.\<close>

definition Stop_request :: "Application \<Rightarrow> Application" where
  "Stop_request a =
     (let a1 = a\<lparr>stop_thread_flag := True\<rparr>
      in emit EventNotify (a1\<lparr>queue_event := Event_Notify (queue_event a1)\<rparr>))"

text \<open>
  \<open>join\<close> returns when the worker has left \<open>WorkerThread\<close>, and not before: it is the
  worker's run, on the state it finds, up to its exit. While the worker stays in \<open>Wait\<close>
  the call does not return (\<open>None\<close>). A fault in the worker ends the process.
\<close>

definition worker_thread_join ::
  "worker_position \<Rightarrow> (nat \<Rightarrow> bool) \<Rightarrow> nat \<Rightarrow> Application \<Rightarrow> (error + Application) option" where
  "worker_thread_join pos stat_elapsed n a =
     (case WorkerThread_from pos stat_elapsed n a of
        Inl x \<Rightarrow> Some (Inl x)
      | Inr (Waiting a1) \<Rightarrow> None
      | Inr (Exited a1) \<Rightarrow> Some (Inr (emit ThreadJoin (a1\<lparr>worker_thread := False\<rparr>))))"

text \<open>
  \<open>pos\<close>, \<open>stat_elapsed\<close> and \<open>n\<close> say where the worker is, and what its stopwatch
  does, at the moment of the call; they matter only when there is a worker to join.
\<close>

definition Stop ::
  "worker_position \<Rightarrow> (nat \<Rightarrow> bool) \<Rightarrow> nat \<Rightarrow> Application
     \<Rightarrow> (error + bool \<times> Application) option" where
  "Stop pos stat_elapsed n a =
     (if stop_thread_flag a then Some (Inr (True, a))
      else
        (let a2 = Stop_request a
         in case (if worker_thread a2 then worker_thread_join pos stat_elapsed n a2
                  else Some (Inr a2)) of
              None \<Rightarrow> None
            | Some (Inl x) \<Rightarrow> Some (Inl x)
            | Some (Inr a3) \<Rightarrow>
                (let (type_name, a4) = GetApplicationTypeName a3;
                     a5 = emit (LogDeleted type_name (app_name a4)) a4
                 in Some (Inr (True, a5)))))"

text \<open>The number of items waiting in the three queues together.\<close>

definition backlog :: "Application \<Rightarrow> nat" where
  "backlog a =
     length (video_stream_queue a) + length (audio_stream_queue a)
       + length (incoming_packet_queue a)"


section \<open>Concrete applications used to evaluate the functions\<close>

definition track0 :: MediaTrack where
  "track0 = \<lparr>time_base_expr = 1 / 1000\<rparr>"

definition info7 :: info_Stream where
  "info7 = \<lparr>stream_id = 7, stream_name = ''live'', tracks = [(0, track0)]\<rparr>"

definition packet0 :: MediaPacket where
  "packet0 = \<lparr>pts = 40, packet_track_id = 0\<rparr>"

definition app0 :: "event_kind \<Rightarrow> Application" where
  "app0 k = Application_new (Some ''CMAF'') ''app'' 1 CmafPublisher_init k"

text \<open>A subclass whose hooks always succeed, the creation hook with the stream at 2.\<close>

definition sub_ok :: Subclass where
  "sub_ok = \<lparr>CreateStream = (\<lambda>info worker_count. Some 2), DeleteStream = (\<lambda>info. True)\<rparr>"

text \<open>The same subclass at another moment: its creation hook yields the stream at 1.\<close>

definition sub_first :: Subclass where
  "sub_first = \<lparr>CreateStream = (\<lambda>info worker_count. Some 1), DeleteStream = (\<lambda>info. True)\<rparr>"

text \<open>A subclass whose hooks always fail.\<close>

definition sub_fail :: Subclass where
  "sub_fail = \<lparr>CreateStream = (\<lambda>info worker_count. None), DeleteStream = (\<lambda>info. False)\<rparr>"

text \<open>
  An application in which stream id 7 is registered with the stream at 1: the state
  \<open>OnCreateStream\<close> leaves when the creation hook yields that stream.
\<close>

definition app_with7 :: Application where
  "app_with7 =
     (app0 Counting)\<lparr>streams := [7 \<mapsto> 1],
        trace := [CallCreateStream (Some info7) 4, Lock StreamMapMutex, MapStore 7 1,
                  Unlock StreamMapMutex]\<rparr>"

text \<open>An application whose worker is running: the state \<open>Start\<close> leaves behind.\<close>

definition app_running :: Application where
  "app_running =
     (app0 Counting)\<lparr>app_type_name := ''CMAF Application'', worker_thread := True,
        trace := [ThreadSpawn, LogCreated ''CMAF Application'' ''app'']\<rparr>"


text \<open>The state \<open>OnCreateStream\<close> leaves when stream 7 is created in a new application.\<close>

definition app_created7 :: Application where
  "app_created7 =
     (app0 Counting)\<lparr>streams := [7 \<mapsto> 2],
        trace := [CallCreateStream (Some info7) 4, Lock StreamMapMutex, MapStore 7 2,
                  Unlock StreamMapMutex]\<rparr>"

text \<open>The state \<open>OnDeleteStream\<close> leaves when that stream is deleted again.\<close>

definition app_deleted7 :: Application where
  "app_deleted7 =
     app_created7\<lparr>streams := Map.empty,
        trace := trace app_created7
          @ [Lock StreamMapMutex, Unlock StreamMapMutex, CallDeleteStream (Some info7),
             Lock StreamMapMutex, MapErase 7, StreamStop 2, Unlock StreamMapMutex]\<rparr>"

text \<open>
  The state \<open>Stop\<close> leaves when the worker of \<open>app_running\<close> is stopped before it
  has reached \<open>Wait\<close>: the signal of \<open>Stop\<close> is still pending.
\<close>

definition app_stopped :: Application where
  "app_stopped =
     app_running\<lparr>stop_thread_flag := True, worker_thread := False,
        queue_event := \<lparr>kind = Counting, pending = 1\<rparr>,
        trace := trace app_running
          @ [EventNotify, ThreadJoin, LogDeleted ''CMAF Application'' ''app'']\<rparr>"

text \<open>
  The state \<open>Stop\<close> leaves when that worker was inside \<open>Wait\<close>: it has consumed the
  signal and made one more pass over the (empty) queues before it left.
\<close>

definition app_stopped_woken :: Application where
  "app_stopped_woken =
     app_running\<lparr>stop_thread_flag := True, worker_thread := False,
        trace := trace app_running
          @ [EventNotify, EventWait, Lock VideoQueueGuard, Unlock VideoQueueGuard,
             Lock AudioQueueGuard, Unlock AudioQueueGuard,
             Lock IncomingPacketQueueGuard, Unlock IncomingPacketQueueGuard,
             ThreadJoin, LogDeleted ''CMAF Application'' ''app'']\<rparr>"

definition video_item7 :: VideoStreamData where
  "video_item7 = \<lparr>video_stream = Some info7, video_media_packet = Some packet0\<rparr>"

definition audio_item7 :: AudioStreamData where
  "audio_item7 = \<lparr>audio_stream = Some info7, audio_media_packet = Some packet0\<rparr>"

text \<open>A new application after one video frame for stream 7 was submitted.\<close>

definition app_one_video :: Application where
  "app_one_video =
     (app0 Counting)\<lparr>queue_event := \<lparr>kind = Counting, pending = 1\<rparr>,
        video_stream_queue := [video_item7], last_video_ts_ms := 40,
        trace := [Lock VideoQueueGuard, PushVideo video_item7, Unlock VideoQueueGuard,
                  EventNotify]\<rparr>"

text \<open>A new application after one audio frame for stream 7 was submitted.\<close>

definition app_one_audio :: Application where
  "app_one_audio =
     (app0 Counting)\<lparr>queue_event := \<lparr>kind = Counting, pending = 1\<rparr>,
        audio_stream_queue := [audio_item7], last_audio_ts_ms := 40,
        trace := [Lock AudioQueueGuard, PushAudio audio_item7, Unlock AudioQueueGuard,
                  EventNotify]\<rparr>"

text \<open>
  \<open>app_one_video\<close> after one pass of the loop body: the frame was taken from the queue
  and, stream 7 not being registered, dropped.
\<close>

definition app_drained :: Application where
  "app_drained =
     app_one_video\<lparr>queue_event := \<lparr>kind = Counting, pending = 0\<rparr>,
        video_stream_queue := [],
        trace := trace app_one_video
          @ [EventWait, Lock VideoQueueGuard, Unlock VideoQueueGuard,
             LockShared StreamMapMutex, UnlockShared StreamMapMutex,
             Lock AudioQueueGuard, Unlock AudioQueueGuard,
             Lock IncomingPacketQueueGuard, Unlock IncomingPacketQueueGuard]\<rparr>"

text \<open>The same two states for a wake event of the binary kind.\<close>

definition app_one_video_binary :: Application where
  "app_one_video_binary = app_one_video\<lparr>queue_event := \<lparr>kind = Binary, pending = 1\<rparr>\<rparr>"

definition app_drained_binary :: Application where
  "app_drained_binary = app_drained\<lparr>queue_event := \<lparr>kind = Binary, pending = 0\<rparr>\<rparr>"

text \<open>Stream 7 registered at 1, with one video and one audio frame for it queued.\<close>

definition app_with7_frames :: Application where
  "app_with7_frames =
     app_with7\<lparr>video_stream_queue := [video_item7], audio_stream_queue := [audio_item7]\<rparr>"


section \<open>Basic facts\<close>

lemmas example_defs = app0_def Application_new_def CmafPublisher_init_def info7_def
  packet0_def track0_def sub_ok_def sub_fail_def app_with7_def app_running_def
  app_created7_def app_deleted7_def app_stopped_def video_item7_def audio_item7_def
  app_one_video_def app_one_audio_def app_drained_def app_with7_frames_def
  sub_first_def app_one_video_binary_def app_drained_binary_def app_stopped_woken_def

lemma emit_fields:
  "trace (emit e a) = trace a @ [e]"
  "streams (emit e a) = streams a"
  "queue_event (emit e a) = queue_event a"
  "stop_thread_flag (emit e a) = stop_thread_flag a"
  "worker_thread (emit e a) = worker_thread a"
  "video_stream_queue (emit e a) = video_stream_queue a"
  "audio_stream_queue (emit e a) = audio_stream_queue a"
  "incoming_packet_queue (emit e a) = incoming_packet_queue a"
  "config (emit e a) = config a"
  by (simp_all add: emit_def)

lemma log_stats_fields:
  "streams (log_stats el a) = streams a"
  "queue_event (log_stats el a) = queue_event a"
  "stop_thread_flag (log_stats el a) = stop_thread_flag a"
  "worker_thread (log_stats el a) = worker_thread a"
  "video_stream_queue (log_stats el a) = video_stream_queue a"
  "audio_stream_queue (log_stats el a) = audio_stream_queue a"
  "incoming_packet_queue (log_stats el a) = incoming_packet_queue a"
  by (simp_all add: log_stats_def emit_fields)

lemma Event_Wait_less: "Event_Wait e = Some e' \<Longrightarrow> pending e' < pending e"
  by (auto simp: Event_Wait_def split: if_splits event_kind.splits)

lemma Event_Wait_blocks: "Event_Wait e = None \<longleftrightarrow> pending e = 0"
  by (auto simp: Event_Wait_def split: event_kind.splits)

lemma Event_Wait_Counting:
  "Event_Wait e = Some e' \<Longrightarrow> kind e = Counting \<Longrightarrow>
     kind e' = Counting \<and> Suc (pending e') = pending e"
  by (auto simp: Event_Wait_def split: if_splits)

lemma Event_Notify_pending: "0 < pending (Event_Notify e)"
  by (simp add: Event_Notify_def split: event_kind.splits)


section \<open>What one pass of the loop body changes\<close>

lemma drain_video_frame:
  assumes "drain_video a = Inr a'"
  shows "video_stream_queue a' = tl (video_stream_queue a)"
    and "audio_stream_queue a' = audio_stream_queue a"
    and "incoming_packet_queue a' = incoming_packet_queue a"
    and "queue_event a' = queue_event a"
    and "streams a' = streams a"
    and "stop_thread_flag a' = stop_thread_flag a"
  using assms
  by (auto simp: drain_video_def PopVideoStreamData_def SendVideoFrame_def GetStream_def
      Let_def emit_fields split: list.splits option.splits if_splits)

lemma drain_audio_frame:
  assumes "drain_audio a = Inr a'"
  shows "video_stream_queue a' = video_stream_queue a"
    and "audio_stream_queue a' = tl (audio_stream_queue a)"
    and "incoming_packet_queue a' = incoming_packet_queue a"
    and "queue_event a' = queue_event a"
    and "streams a' = streams a"
    and "stop_thread_flag a' = stop_thread_flag a"
  using assms
  by (auto simp: drain_audio_def PopAudioStreamData_def SendAudioFrame_def GetStream_def
      Let_def emit_fields split: list.splits option.splits if_splits)

lemma drain_packet_frame:
  assumes "drain_packet a = Inr a'"
  shows "video_stream_queue a' = video_stream_queue a"
    and "audio_stream_queue a' = audio_stream_queue a"
    and "incoming_packet_queue a' = tl (incoming_packet_queue a)"
    and "queue_event a' = queue_event a"
    and "streams a' = streams a"
    and "stop_thread_flag a' = stop_thread_flag a"
  using assms
  by (auto simp: drain_packet_def PopIncomingPacket_def OnPacketReceived_def
      Let_def emit_fields split: list.splits option.splits if_splits)

lemma WorkerThread_body_Stepped:
  assumes "WorkerThread_body elapsed a = Inr (Stepped a')"
  shows "Event_Wait (queue_event a) = Some (queue_event a')"
    and "video_stream_queue a' = tl (video_stream_queue a)"
    and "audio_stream_queue a' = tl (audio_stream_queue a)"
    and "incoming_packet_queue a' = tl (incoming_packet_queue a)"
    and "streams a' = streams a"
    and "stop_thread_flag a' = stop_thread_flag a"
proof -
  from assms obtain e a2 a3 where
    w: "Event_Wait (queue_event (log_stats elapsed a)) = Some e" and
    v: "drain_video (emit EventWait ((log_stats elapsed a)\<lparr>queue_event := e\<rparr>)) = Inr a2" and
    au: "drain_audio a2 = Inr a3" and
    p: "drain_packet a3 = Inr a'"
    unfolding WorkerThread_body_def Let_def
    by (auto split: option.splits sum.splits)
  note fv = drain_video_frame [OF v] and fa = drain_audio_frame [OF au]
    and fp = drain_packet_frame [OF p]
  show "Event_Wait (queue_event a) = Some (queue_event a')"
    using w fv(4) fa(4) fp(4) by (simp add: emit_fields log_stats_fields)
  show "video_stream_queue a' = tl (video_stream_queue a)"
    using fv(1) fa(1) fp(1) by (simp add: emit_fields log_stats_fields)
  show "audio_stream_queue a' = tl (audio_stream_queue a)"
    using fv(2) fa(2) fp(2) by (simp add: emit_fields log_stats_fields)
  show "incoming_packet_queue a' = tl (incoming_packet_queue a)"
    using fv(3) fa(3) fp(3) by (simp add: emit_fields log_stats_fields)
  show "streams a' = streams a"
    using fv(5) fa(5) fp(5) by (simp add: emit_fields log_stats_fields)
  show "stop_thread_flag a' = stop_thread_flag a"
    using fv(6) fa(6) fp(6) by (simp add: emit_fields log_stats_fields)
qed

lemma WorkerThread_body_no_signal:
  "pending (queue_event a) = 0 \<Longrightarrow>
     WorkerThread_body elapsed a = Inr (Blocked (log_stats elapsed a))"
  unfolding WorkerThread_body_def Let_def
  by (simp add: log_stats_fields Event_Wait_blocks [THEN iffD2])

lemma WorkerThread_body_signal:
  "0 < pending (queue_event a) \<Longrightarrow> WorkerThread_body elapsed a \<noteq> Inr (Blocked b)"
  unfolding WorkerThread_body_def Let_def
  using Event_Wait_blocks [of "queue_event a"]
  by (auto simp: log_stats_fields split: option.splits sum.splits)

lemma WorkerThread_body_Blocked:
  assumes "WorkerThread_body elapsed a = Inr (Blocked b)"
  shows "pending (queue_event a) = 0" and "b = log_stats elapsed a"
proof -
  show p: "pending (queue_event a) = 0"
    using assms WorkerThread_body_signal [of a elapsed b] by auto
  show "b = log_stats elapsed a"
    using assms WorkerThread_body_no_signal [OF p, of elapsed] by simp
qed

section \<open>The loop ends\<close>

text \<open>Every pass that does not block consumes a signal, so the loop run on its own ends.\<close>

termination WorkerThread
  by (relation "measure (\<lambda>(c, n, a). pending (queue_event a))")
     (auto dest!: WorkerThread_body_Stepped(1) Event_Wait_less)

lemma backlog_tl:
  "length (tl xs) + length (tl ys) + length (tl zs) \<le> length xs + length ys + length zs - 1"
  by (cases xs; cases ys; cases zs) auto

lemma WorkerThread_body_backlog:
  assumes "WorkerThread_body elapsed a = Inr (Stepped a')"
    and "kind (queue_event a) = Counting"
    and "backlog a \<le> pending (queue_event a)"
  shows "kind (queue_event a') = Counting \<and> backlog a' \<le> pending (queue_event a')"
proof -
  note s = WorkerThread_body_Stepped [OF assms(1)]
  from Event_Wait_Counting [OF s(1) assms(2)]
  have k: "kind (queue_event a') = Counting"
    and p: "Suc (pending (queue_event a')) = pending (queue_event a)" by simp_all
  have "backlog a' \<le> backlog a - 1"
    unfolding backlog_def s(2) s(3) s(4) by (rule backlog_tl)
  with assms(3) p k show ?thesis by simp
qed

lemma WorkerThread_drains:
  "WorkerThread c n a = Inr r \<Longrightarrow> \<not> stop_thread_flag a
     \<Longrightarrow> kind (queue_event a) = Counting \<Longrightarrow> backlog a \<le> pending (queue_event a)
     \<Longrightarrow> \<exists>a'. r = Waiting a' \<and> backlog a' = 0"
proof (induction c n a rule: WorkerThread.induct)
  case (1 c n a)
  show ?case
  proof (cases "WorkerThread_body (c n) a")
    case (Inl x)
    with "1.prems" show ?thesis by simp
  next
    case (Inr st)
    show ?thesis
    proof (cases st)
      case (Blocked b)
      with Inr have b: "WorkerThread_body (c n) a = Inr (Blocked b)" by simp
      have "backlog b = 0"
        using WorkerThread_body_Blocked [OF b] "1.prems"(4)
        by (simp add: backlog_def log_stats_fields)
      moreover have "r = Waiting b"
        using "1.prems"(1,2) b by simp
      ultimately show ?thesis by simp
    next
      case (Stepped a1)
      with Inr have b: "WorkerThread_body (c n) a = Inr (Stepped a1)" by simp
      have r: "WorkerThread c (Suc n) a1 = Inr r"
        using "1.prems"(1,2) b by simp
      have f: "\<not> stop_thread_flag a1"
        using WorkerThread_body_Stepped(6) [OF b] "1.prems"(2) by simp
      from WorkerThread_body_backlog [OF b "1.prems"(3,4)]
      show ?thesis
        using "1.IH" [OF "1.prems"(2) b refl r f] by simp
    qed
  qed
qed


section \<open>The loop does not fault on well-formed packets\<close>

lemma drain_video_no_fault: "\<exists>a'. drain_video a = Inr a'"
  by (auto simp: drain_video_def PopVideoStreamData_def SendVideoFrame_def GetStream_def
      Let_def split: list.splits option.splits)

lemma drain_audio_no_fault: "\<exists>a'. drain_audio a = Inr a'"
  by (auto simp: drain_audio_def PopAudioStreamData_def SendAudioFrame_def GetStream_def
      Let_def split: list.splits option.splits)

lemma drain_packet_no_fault:
  "list_all (\<lambda>p. packet_session_info p \<noteq> None) (incoming_packet_queue a)
     \<Longrightarrow> \<exists>a'. drain_packet a = Inr a'"
  by (auto simp: drain_packet_def PopIncomingPacket_def OnPacketReceived_def emit_fields
      Let_def split: list.splits option.splits)

lemma WorkerThread_body_no_fault:
  assumes "list_all (\<lambda>p. packet_session_info p \<noteq> None) (incoming_packet_queue a)"
  shows "WorkerThread_body elapsed a \<noteq> Inl x"
proof (cases "Event_Wait (queue_event (log_stats elapsed a))")
  case None
  then show ?thesis by (simp add: WorkerThread_body_def)
next
  case (Some e)
  let ?a2 = "emit EventWait ((log_stats elapsed a)\<lparr>queue_event := e\<rparr>)"
  obtain a3 where v: "drain_video ?a2 = Inr a3"
    using drain_video_no_fault by blast
  obtain a4 where au: "drain_audio a3 = Inr a4"
    using drain_audio_no_fault by blast
  have "incoming_packet_queue a4 = incoming_packet_queue a"
    using drain_video_frame(3) [OF v] drain_audio_frame(3) [OF au]
    by (simp add: emit_fields log_stats_fields)
  with assms obtain a5 where p: "drain_packet a4 = Inr a5"
    using drain_packet_no_fault [of a4] by auto
  show ?thesis
    using Some v au p by (simp add: WorkerThread_body_def)
qed

lemma list_all_tl: "list_all P xs \<Longrightarrow> list_all P (tl xs)"
  by (cases xs) simp_all

lemma WorkerThread_runs_to_wait:
  "\<not> stop_thread_flag a
     \<Longrightarrow> list_all (\<lambda>p. packet_session_info p \<noteq> None) (incoming_packet_queue a)
     \<Longrightarrow> \<exists>r. WorkerThread c n a = Inr r"
proof (induction c n a rule: WorkerThread.induct)
  case (1 c n a)
  show ?case
  proof (cases "WorkerThread_body (c n) a")
    case (Inl x)
    with WorkerThread_body_no_fault [OF "1.prems"(2)] show ?thesis by blast
  next
    case (Inr st)
    show ?thesis
    proof (cases st)
      case (Blocked b)
      with Inr "1.prems"(1) show ?thesis by simp
    next
      case (Stepped a1)
      with Inr have b: "WorkerThread_body (c n) a = Inr (Stepped a1)" by simp
      have f: "\<not> stop_thread_flag a1"
        using WorkerThread_body_Stepped(6) [OF b] "1.prems"(1) by simp
      have l: "list_all (\<lambda>p. packet_session_info p \<noteq> None) (incoming_packet_queue a1)"
        using WorkerThread_body_Stepped(4) [OF b] "1.prems"(2) by (simp add: list_all_tl)
      from "1.IH" [OF "1.prems"(1) b refl f l] "1.prems"(1) b
      show ?thesis by simp
    qed
  qed
qed

text \<open>
  With a counting event, the producers keep at least one signal pending for every
  queued item.
\<close>

lemma producers_keep_signals:
  assumes "kind (queue_event a) = Counting" and "backlog a \<le> pending (queue_event a)"
  shows "OnSendVideoFrame a st mp = Inr (r, a') \<Longrightarrow>
           kind (queue_event a') = Counting \<and> backlog a' \<le> pending (queue_event a')"
    and "OnSendAudioFrame a st mp = Inr (r, a') \<Longrightarrow>
           kind (queue_event a') = Counting \<and> backlog a' \<le> pending (queue_event a')"
    and "PushIncomingPacket a si d = (r, a') \<Longrightarrow>
           kind (queue_event a') = Counting \<and> backlog a' \<le> pending (queue_event a')"
  using assms
  by (auto simp: OnSendVideoFrame_def OnSendAudioFrame_def PushIncomingPacket_def
      Let_def emit_def backlog_def Event_Notify_def split: option.splits)


section \<open>The functions evaluated on the concrete applications\<close>

lemma eval_create7:
  "OnCreateStream sub_ok (app0 Counting) (Some info7) = Inr (True, app_created7)"
  by (simp add: OnCreateStream_def Let_def emit_def GetThreadCount_def GetId_def example_defs)

lemma eval_delete7:
  "OnDeleteStream sub_ok app_created7 (Some info7) = Inr (True, app_deleted7)"
  by (simp add: OnDeleteStream_def Let_def emit_def GetId_def example_defs)

lemma eval_start: "Start (app0 Counting) = Inr (True, app_running)"
  by (simp add: Start_def Let_def emit_def GetApplicationTypeName_def example_defs)

lemma eval_send_video:
  "OnSendVideoFrame (app0 Counting) (Some info7) (Some packet0) = Inr (True, app_one_video)"
  by (simp add: OnSendVideoFrame_def Let_def emit_def GetTrack_def Event_Notify_def
      example_defs)

lemma eval_send_audio:
  "OnSendAudioFrame (app0 Counting) (Some info7) (Some packet0) = Inr (True, app_one_audio)"
  by (simp add: OnSendAudioFrame_def Let_def emit_def GetTrack_def Event_Notify_def
      example_defs)

lemma eval_body_drains:
  "WorkerThread_body False app_one_video = Inr (Stepped app_drained)"
  by (simp add: WorkerThread_body_def log_stats_def Event_Wait_def drain_video_def
      drain_audio_def drain_packet_def PopVideoStreamData_def PopAudioStreamData_def
      PopIncomingPacket_def SendVideoFrame_def GetStream_def GetId_def Let_def emit_def
      example_defs)

lemma eval_body_blocks:
  "WorkerThread_body False app_drained = Inr (Blocked app_drained)"
  by (simp add: WorkerThread_body_def log_stats_def Event_Wait_def Let_def example_defs)

lemma eval_send_video_binary:
  "OnSendVideoFrame (app0 Binary) (Some info7) (Some packet0) = Inr (True, app_one_video_binary)"
  by (simp add: OnSendVideoFrame_def Let_def emit_def GetTrack_def Event_Notify_def
      example_defs)

lemma eval_body_drains_binary:
  "WorkerThread_body False app_one_video_binary = Inr (Stepped app_drained_binary)"
  by (simp add: WorkerThread_body_def log_stats_def Event_Wait_def drain_video_def
      drain_audio_def drain_packet_def PopVideoStreamData_def PopAudioStreamData_def
      PopIncomingPacket_def SendVideoFrame_def GetStream_def GetId_def Let_def emit_def
      example_defs)

lemma eval_body_blocks_binary:
  "WorkerThread_body False app_drained_binary = Inr (Blocked app_drained_binary)"
  by (simp add: WorkerThread_body_def log_stats_def Event_Wait_def Let_def example_defs)

lemma eval_create7_first:
  "OnCreateStream sub_first (app0 Counting) (Some info7) = Inr (True, app_with7)"
  by (simp add: OnCreateStream_def Let_def emit_def GetThreadCount_def GetId_def example_defs)


section \<open>Stream creation\<close>

text \<open>
  C1, as stated (a second \<open>OnCreateStream\<close> for an id already in the registry fails
  with a duplicate-stream error and the earlier entry stays), does not hold. A first
  call registers stream 7 with the stream at 1. In a second call for the same id the
  creation hook succeeds with the stream at 2, and the call returns true as well, with
  the entry for 7 replaced by 2.
\<close>

theorem OnCreateStream_duplicate_counterexample:
  "OnCreateStream sub_first (app0 Counting) (Some info7) = Inr (True, app_with7)
   \<and> streams app_with7 7 = Some 1
   \<and> CreateStream sub_ok (Some info7) (GetThreadCount (config app_with7)) = Some 2
   \<and> OnCreateStream sub_ok app_with7 (Some info7) =
       Inr (True, app_with7\<lparr>streams := [7 \<mapsto> 2],
          trace := trace app_with7
            @ [CallCreateStream (Some info7) 4, Lock StreamMapMutex, MapStore 7 2,
               Unlock StreamMapMutex]\<rparr>)"
  by (simp add: eval_create7_first)
     (simp add: OnCreateStream_def Let_def emit_def GetThreadCount_def GetId_def example_defs)

text \<open>
  C1, amended: whenever the creation hook succeeds for a descriptor, \<open>OnCreateStream\<close>
  returns true, whether or not the id is already registered, and the registry then maps
  the id to the stream the hook produced, every other entry being as before.
\<close>

theorem OnCreateStream_replaces_entry:
  "CreateStream sub (Some i) (GetThreadCount (config a)) = Some s \<Longrightarrow>
     \<exists>a'. OnCreateStream sub a (Some i) = Inr (True, a')
        \<and> streams a' = (streams a)(GetId i \<mapsto> s)"
  by (simp add: OnCreateStream_def Let_def emit_def)

theorem OnCreateStream_replaces_entry_witness:
  "CreateStream sub_ok (Some info7) (GetThreadCount (config app_with7)) = Some 2
   \<and> (\<exists>a'. OnCreateStream sub_ok app_with7 (Some info7) = Inr (True, a')
          \<and> streams a' = (streams app_with7)(GetId info7 \<mapsto> 2))"
proof -
  have h: "CreateStream sub_ok (Some info7) (GetThreadCount (config app_with7)) = Some 2"
    by (simp add: sub_ok_def)
  from OnCreateStream_replaces_entry [OF h] h show ?thesis by simp
qed


section \<open>Start\<close>

text \<open>
  C2, as stated (\<open>Start\<close> on a running worker is a no-op that returns success), does
  not hold. \<open>Start\<close> on a new application succeeds and leaves a joinable worker; a
  second \<open>Start\<close> in that state assigns to the joinable thread object and ends in
  \<open>std::terminate\<close>.
\<close>

theorem Start_while_running_counterexample:
  "Start (app0 Counting) = Inr (True, app_running)
   \<and> worker_thread app_running
   \<and> Start app_running = Inl ThreadTerminate"
  by (simp add: Start_def Let_def emit_def GetApplicationTypeName_def example_defs)

text \<open>
  C2, amended: \<open>Start\<close> makes no check for a running worker and is meant for an
  application that has none. Called while no worker is joinable (a new application, or
  one whose worker \<open>Stop\<close> has joined), it clears the stop flag, spawns exactly one
  worker, returns true and leaves registry, queues and wake event as they were.
\<close>

theorem Start_spawns_one_worker:
  "\<not> worker_thread a \<Longrightarrow>
     \<exists>a'. Start a = Inr (True, a')
        \<and> \<not> stop_thread_flag a' \<and> worker_thread a'
        \<and> filter (\<lambda>e. e = ThreadSpawn) (trace a')
            = filter (\<lambda>e. e = ThreadSpawn) (trace a) @ [ThreadSpawn]
        \<and> streams a' = streams a \<and> queue_event a' = queue_event a
        \<and> video_stream_queue a' = video_stream_queue a
        \<and> audio_stream_queue a' = audio_stream_queue a
        \<and> incoming_packet_queue a' = incoming_packet_queue a"
  by (auto simp: Start_def Let_def emit_def GetApplicationTypeName_def split: option.splits)

theorem Start_spawns_one_worker_witness:
  "\<not> worker_thread (app0 Counting)
   \<and> (\<exists>a'. Start (app0 Counting) = Inr (True, a')
          \<and> \<not> stop_thread_flag a' \<and> worker_thread a'
          \<and> filter (\<lambda>e. e = ThreadSpawn) (trace a') = [ThreadSpawn])
   \<and> \<not> worker_thread app_stopped
   \<and> (\<exists>a'. Start app_stopped = Inr (True, a')
          \<and> \<not> stop_thread_flag a' \<and> worker_thread a'
          \<and> filter (\<lambda>e. e = ThreadSpawn) (trace a') = [ThreadSpawn, ThreadSpawn])"
proof -
  have h1: "\<not> worker_thread (app0 Counting)" and t1: "trace (app0 Counting) = []"
    by (simp_all add: example_defs)
  have h2: "\<not> worker_thread app_stopped"
    and t2: "filter (\<lambda>e. e = ThreadSpawn) (trace app_stopped) = [ThreadSpawn]"
    by (simp_all add: example_defs)
  from Start_spawns_one_worker [OF h1]
  have c1: "\<exists>a'. Start (app0 Counting) = Inr (True, a')
          \<and> \<not> stop_thread_flag a' \<and> worker_thread a'
          \<and> filter (\<lambda>e. e = ThreadSpawn) (trace a') = [ThreadSpawn]"
    unfolding t1 by auto
  from Start_spawns_one_worker [OF h2]
  have c2: "\<exists>a'. Start app_stopped = Inr (True, a')
          \<and> \<not> stop_thread_flag a' \<and> worker_thread a'
          \<and> filter (\<lambda>e. e = ThreadSpawn) (trace a') = [ThreadSpawn, ThreadSpawn]"
    unfolding t2 by auto
  from h1 h2 c1 c2 show ?thesis by blast
qed

section \<open>The worker leaves the loop when it is stopped\<close>

lemma identity_fields:
  "publisher (emit e a) = publisher a"
  "app_type_name (emit e a) = app_type_name a"
  "app_name (emit e a) = app_name a"
  "publisher (log_stats el a) = publisher a"
  "app_type_name (log_stats el a) = app_type_name a"
  "app_name (log_stats el a) = app_name a"
  by (simp_all add: emit_def log_stats_def)

lemma drain_video_identity:
  assumes "drain_video a = Inr a'"
  shows "publisher a' = publisher a" and "app_type_name a' = app_type_name a"
    and "app_name a' = app_name a" and "worker_thread a' = worker_thread a"
    and "\<exists>evs. trace a' = trace a @ evs"
  using assms
  by (auto simp: drain_video_def PopVideoStreamData_def SendVideoFrame_def GetStream_def
      Let_def emit_def split: list.splits option.splits if_splits)

lemma drain_audio_identity:
  assumes "drain_audio a = Inr a'"
  shows "publisher a' = publisher a" and "app_type_name a' = app_type_name a"
    and "app_name a' = app_name a" and "worker_thread a' = worker_thread a"
    and "\<exists>evs. trace a' = trace a @ evs"
  using assms
  by (auto simp: drain_audio_def PopAudioStreamData_def SendAudioFrame_def GetStream_def
      Let_def emit_def split: list.splits option.splits if_splits)

lemma drain_packet_identity:
  assumes "drain_packet a = Inr a'"
  shows "publisher a' = publisher a" and "app_type_name a' = app_type_name a"
    and "app_name a' = app_name a" and "worker_thread a' = worker_thread a"
    and "\<exists>evs. trace a' = trace a @ evs"
  using assms
  by (auto simp: drain_packet_def PopIncomingPacket_def OnPacketReceived_def
      Let_def emit_def split: list.splits option.splits if_splits)

lemma WorkerThread_body_identity:
  assumes "WorkerThread_body False a = Inr (Stepped a')"
  shows "publisher a' = publisher a" and "app_type_name a' = app_type_name a"
    and "app_name a' = app_name a" and "worker_thread a' = worker_thread a"
    and "\<exists>evs. trace a' = trace a @ EventWait # evs"
proof -
  have l: "log_stats False a = a" by (simp add: log_stats_def)
  from assms obtain e a2 a3 where
    v: "drain_video (emit EventWait (a\<lparr>queue_event := e\<rparr>)) = Inr a2" and
    au: "drain_audio a2 = Inr a3" and
    p: "drain_packet a3 = Inr a'"
    unfolding WorkerThread_body_def Let_def l
    by (auto split: option.splits sum.splits)
  note fv = drain_video_identity [OF v] and fa = drain_audio_identity [OF au]
    and fp = drain_packet_identity [OF p]
  show "publisher a' = publisher a"
    using fv(1) fa(1) fp(1) by (simp add: identity_fields)
  show "app_type_name a' = app_type_name a"
    using fv(2) fa(2) fp(2) by (simp add: identity_fields)
  show "app_name a' = app_name a"
    using fv(3) fa(3) fp(3) by (simp add: identity_fields)
  show "worker_thread a' = worker_thread a"
    using fv(4) fa(4) fp(4) by (simp add: emit_fields)
  from fv(5) fa(5) fp(5) obtain e1 e2 e3 where
    "trace a2 = trace (emit EventWait (a\<lparr>queue_event := e\<rparr>)) @ e1"
    "trace a3 = trace a2 @ e2" "trace a' = trace a3 @ e3"
    by blast
  then have "trace a' = trace a @ EventWait # (e1 @ e2 @ e3)"
    by (simp add: emit_def)
  then show "\<exists>evs. trace a' = trace a @ EventWait # evs" by blast
qed

lemma drain_packet_no_fault_head:
  "list_all (\<lambda>p. packet_session_info p \<noteq> None) (take 1 (incoming_packet_queue a))
     \<Longrightarrow> \<exists>a'. drain_packet a = Inr a'"
  by (auto simp: drain_packet_def PopIncomingPacket_def OnPacketReceived_def emit_fields
      Let_def split: list.splits option.splits)

lemma WorkerThread_body_no_fault_head:
  assumes "list_all (\<lambda>p. packet_session_info p \<noteq> None) (take 1 (incoming_packet_queue a))"
  shows "WorkerThread_body elapsed a \<noteq> Inl x"
proof (cases "Event_Wait (queue_event (log_stats elapsed a))")
  case None
  then show ?thesis by (simp add: WorkerThread_body_def)
next
  case (Some e)
  let ?a2 = "emit EventWait ((log_stats elapsed a)\<lparr>queue_event := e\<rparr>)"
  obtain a3 where v: "drain_video ?a2 = Inr a3"
    using drain_video_no_fault by blast
  obtain a4 where au: "drain_audio a3 = Inr a4"
    using drain_audio_no_fault by blast
  have "incoming_packet_queue a4 = incoming_packet_queue a"
    using drain_video_frame(3) [OF v] drain_audio_frame(3) [OF au]
    by (simp add: emit_fields log_stats_fields)
  with assms obtain a5 where p: "drain_packet a4 = Inr a5"
    using drain_packet_no_fault_head [of a4] by auto
  show ?thesis
    using Some v au p by (simp add: WorkerThread_body_def)
qed

lemma WorkerThread_stopped:
  "stop_thread_flag a \<Longrightarrow> WorkerThread stat n a = Inr (Exited a)"
  by simp

lemma Stop_request_fields:
  "stop_thread_flag (Stop_request a)"
  "queue_event (Stop_request a) = Event_Notify (queue_event a)"
  "0 < pending (queue_event (Stop_request a))"
  "trace (Stop_request a) = trace a @ [EventNotify]"
  "worker_thread (Stop_request a) = worker_thread a"
  "publisher (Stop_request a) = publisher a"
  "app_type_name (Stop_request a) = app_type_name a"
  "app_name (Stop_request a) = app_name a"
  "incoming_packet_queue (Stop_request a) = incoming_packet_queue a"
  "video_stream_queue (Stop_request a) = video_stream_queue a"
  "audio_stream_queue (Stop_request a) = audio_stream_queue a"
  "streams (Stop_request a) = streams a"
  by (simp_all add: Stop_request_def Let_def emit_def Event_Notify_pending)

text \<open>A worker at the top of the loop sees the flag and leaves at once.\<close>

lemma worker_at_loop_test_exits:
  "WorkerThread_from AtLoopTest stat n (Stop_request a) = Inr (Exited (Stop_request a))"
  by (simp add: WorkerThread_from_def WorkerThread_stopped Stop_request_fields(1)
      del: WorkerThread.simps)

text \<open>
  A worker inside \<open>Wait\<close> is released by the signal, makes one pass, and leaves at the
  next test of the flag, unless the packet it takes has a null session.
\<close>

lemma worker_in_wait_exits_or_faults:
  "(\<exists>x. WorkerThread_body False (Stop_request a) = Inl x
        \<and> WorkerThread_from InWait stat n (Stop_request a) = Inl x)
   \<or> (\<exists>w. WorkerThread_body False (Stop_request a) = Inr (Stepped w)
        \<and> stop_thread_flag w
        \<and> WorkerThread_from InWait stat n (Stop_request a) = Inr (Exited w))"
proof (cases "WorkerThread_body False (Stop_request a)")
  case (Inl x)
  then show ?thesis by (simp add: WorkerThread_from_def)
next
  case (Inr st)
  show ?thesis
  proof (cases st)
    case (Blocked b)
    have "0 < pending (queue_event (Stop_request a))"
      by (rule Stop_request_fields(3))
    then have "WorkerThread_body False (Stop_request a) \<noteq> Inr (Blocked b)"
      by (rule WorkerThread_body_signal)
    with Inr Blocked show ?thesis by simp
  next
    case (Stepped w)
    with Inr have b: "WorkerThread_body False (Stop_request a) = Inr (Stepped w)" by simp
    have f: "stop_thread_flag w"
      using WorkerThread_body_Stepped(6) [OF b] by (simp add: Stop_request_fields)
    from b f show ?thesis
      by (simp add: WorkerThread_from_def WorkerThread_stopped del: WorkerThread.simps)
  qed
qed

lemma worker_in_wait_exits:
  assumes "list_all (\<lambda>p. packet_session_info p \<noteq> None) (take 1 (incoming_packet_queue a))"
  shows "\<exists>w. WorkerThread_body False (Stop_request a) = Inr (Stepped w)
        \<and> stop_thread_flag w
        \<and> WorkerThread_from InWait stat n (Stop_request a) = Inr (Exited w)"
proof -
  have "list_all (\<lambda>p. packet_session_info p \<noteq> None)
          (take 1 (incoming_packet_queue (Stop_request a)))"
    using assms by (simp add: Stop_request_fields)
  from WorkerThread_body_no_fault_head [OF this]
  show ?thesis using worker_in_wait_exits_or_faults [of a stat n] by blast
qed

text \<open>What the end of \<open>Stop\<close> (the log line) adds to the state it finds.\<close>

lemma Stop_with_no_worker:
  assumes "\<not> stop_thread_flag a" and "\<not> worker_thread a"
  shows "\<exists>a'. Stop pos stat n a = Some (Inr (True, a'))
           \<and> stop_thread_flag a' \<and> \<not> worker_thread a'
           \<and> queue_event a' = Event_Notify (queue_event a)
           \<and> trace a' = trace a
               @ [EventNotify, LogDeleted (fst (GetApplicationTypeName a)) (app_name a)]"
  using assms
  by (auto simp: Stop_def Stop_request_def Let_def emit_def GetApplicationTypeName_def
      split: option.splits)

lemma Stop_after_exit:
  assumes "\<not> stop_thread_flag a" and "worker_thread a"
    and "WorkerThread_from pos stat n (Stop_request a) = Inr (Exited w)"
    and "stop_thread_flag w"
    and "publisher w = publisher a" and "app_type_name w = app_type_name a"
    and "app_name w = app_name a"
  shows "\<exists>a'. Stop pos stat n a = Some (Inr (True, a'))
           \<and> stop_thread_flag a' \<and> \<not> worker_thread a'
           \<and> queue_event a' = queue_event w
           \<and> trace a' = trace w
               @ [ThreadJoin, LogDeleted (fst (GetApplicationTypeName a)) (app_name a)]"
  using assms
  by (auto simp: Stop_def worker_thread_join_def Stop_request_fields Let_def emit_def
      GetApplicationTypeName_def split: option.splits)

lemma Stop_returns: "Stop pos stat n a \<noteq> None"
proof (cases "stop_thread_flag a \<or> \<not> worker_thread a")
  case True
  then show ?thesis
    by (auto simp: Stop_def Let_def Stop_request_fields split: prod.splits)
next
  case False
  have "\<exists>r. worker_thread_join pos stat n (Stop_request a) = Some r"
  proof (cases pos)
    case AtLoopTest
    then show ?thesis
      by (simp add: worker_thread_join_def worker_at_loop_test_exits)
  next
    case InWait
    with worker_in_wait_exits_or_faults [of a stat n] show ?thesis
      by (auto simp: worker_thread_join_def)
  qed
  with False show ?thesis
    by (auto simp: Stop_def Let_def Stop_request_fields split: prod.splits sum.splits)
qed

lemma Stop_success:
  assumes "\<not> stop_thread_flag a" and "Stop pos stat n a = Some (Inr (r, a'))"
  shows "r = True \<and> stop_thread_flag a' \<and> \<not> worker_thread a'
         \<and> (\<exists>evs. trace a' = trace a @ EventNotify # evs)
         \<and> (worker_thread a \<longrightarrow>
              (\<exists>w evs. WorkerThread_from pos stat n (Stop_request a) = Inr (Exited w)
                 \<and> trace a' = trace w @ ThreadJoin # evs))"
proof (cases "worker_thread a")
  case False
  with Stop_with_no_worker [OF assms(1) False, of pos stat n] assms(2)
  show ?thesis by auto
next
  case True
  from assms True obtain w where
    w: "WorkerThread_from pos stat n (Stop_request a) = Inr (Exited w)"
    by (auto simp: Stop_def worker_thread_join_def Stop_request_fields Let_def
        split: sum.splits worker_end.splits option.splits prod.splits if_splits)
  have fw: "stop_thread_flag w \<and> publisher w = publisher a
      \<and> app_type_name w = app_type_name a \<and> app_name w = app_name a
      \<and> (\<exists>evs. trace w = trace a @ EventNotify # evs)"
  proof (cases pos)
    case AtLoopTest
    with w worker_at_loop_test_exits [of stat n a] show ?thesis
      by (auto simp: Stop_request_fields)
  next
    case InWait
    with w worker_in_wait_exits_or_faults [of a stat n] obtain
      b: "WorkerThread_body False (Stop_request a) = Inr (Stepped w)" and f: "stop_thread_flag w"
      by auto
    from WorkerThread_body_identity [OF b] f show ?thesis
      by (auto simp: Stop_request_fields)
  qed
  from Stop_after_exit [OF assms(1) True w] fw assms(2) w
  show ?thesis by auto
qed


lemma eval_stop:
  "Stop AtLoopTest (\<lambda>n. False) 0 app_running = Some (Inr (True, app_stopped))"
  by (simp add: Stop_def Stop_request_def worker_thread_join_def WorkerThread_from_def
      Let_def emit_def GetApplicationTypeName_def Event_Notify_def example_defs)

lemma eval_stop_woken:
  "Stop InWait (\<lambda>n. False) 0 app_running = Some (Inr (True, app_stopped_woken))"
  by (simp add: Stop_def Stop_request_def worker_thread_join_def WorkerThread_from_def
      WorkerThread_body_def log_stats_def Event_Wait_def drain_video_def
      drain_audio_def drain_packet_def PopVideoStreamData_def PopAudioStreamData_def
      PopIncomingPacket_def Let_def emit_def GetApplicationTypeName_def Event_Notify_def
      example_defs)


section \<open>Stop\<close>

text \<open>
  C8: with the stop flag clear, \<open>Stop\<close> sets the flag, signals the wake event and,
  when there is a worker, joins it. The join always returns: a worker about to test the
  flag leaves at once, and a worker inside \<open>Wait\<close> is released by the signal, consumes
  it, makes one pass and leaves at the next test of the flag (unless the packet it takes
  then has a null session, which is a fault in the worker). Every return of \<open>Stop\<close> is
  true; it comes after the signal and, with a worker, after the worker has left
  \<open>WorkerThread\<close>, and leaves the flag set and no joinable worker. With the stop flag
  already set, \<open>Stop\<close> returns true at once and nothing changes: no signal, no join.
\<close>

theorem Stop_sets_flag_signals_joins:
  "(stop_thread_flag a \<longrightarrow> Stop pos stat n a = Some (Inr (True, a)))
   \<and> Stop pos stat n a \<noteq> None
   \<and> (\<not> stop_thread_flag a \<and> Stop pos stat n a = Some (Inr (r, a')) \<longrightarrow>
        r = True \<and> stop_thread_flag a' \<and> \<not> worker_thread a'
        \<and> (\<exists>evs. trace a' = trace a @ EventNotify # evs))
   \<and> (\<not> stop_thread_flag a \<and> worker_thread a
        \<and> Stop pos stat n a = Some (Inr (r, a')) \<longrightarrow>
        (\<exists>w evs. WorkerThread_from pos stat n (Stop_request a) = Inr (Exited w)
           \<and> trace a' = trace w @ ThreadJoin # evs))
   \<and> (\<not> stop_thread_flag a \<and> \<not> worker_thread a \<longrightarrow>
        (\<exists>b. Stop pos stat n a = Some (Inr (True, b))
           \<and> queue_event b = Event_Notify (queue_event a)
           \<and> trace b = trace a
               @ [EventNotify, LogDeleted (fst (GetApplicationTypeName a)) (app_name a)]))
   \<and> (\<not> stop_thread_flag a \<and> worker_thread a \<longrightarrow>
        WorkerThread_from AtLoopTest stat n (Stop_request a) = Inr (Exited (Stop_request a))
        \<and> (\<exists>b. Stop AtLoopTest stat n a = Some (Inr (True, b))
              \<and> queue_event b = Event_Notify (queue_event a)
              \<and> trace b = trace a
                  @ [EventNotify, ThreadJoin,
                     LogDeleted (fst (GetApplicationTypeName a)) (app_name a)]))
   \<and> (\<not> stop_thread_flag a \<and> worker_thread a
        \<and> list_all (\<lambda>p. packet_session_info p \<noteq> None) (take 1 (incoming_packet_queue a))
        \<longrightarrow>
        (\<exists>w evs b. WorkerThread_body False (Stop_request a) = Inr (Stepped w)
           \<and> WorkerThread_from InWait stat n (Stop_request a) = Inr (Exited w)
           \<and> Event_Wait (Event_Notify (queue_event a)) = Some (queue_event w)
           \<and> trace w = trace a @ [EventNotify, EventWait] @ evs
           \<and> Stop InWait stat n a = Some (Inr (True, b))
           \<and> queue_event b = queue_event w
           \<and> trace b = trace w
               @ [ThreadJoin, LogDeleted (fst (GetApplicationTypeName a)) (app_name a)]))"
proof (intro conjI impI)
  assume "stop_thread_flag a"
  then show "Stop pos stat n a = Some (Inr (True, a))"
    by (simp add: Stop_def)
next
  show "Stop pos stat n a \<noteq> None"
    by (rule Stop_returns)
next
  assume "\<not> stop_thread_flag a \<and> Stop pos stat n a = Some (Inr (r, a'))"
  then show "r = True" "stop_thread_flag a'" "\<not> worker_thread a'"
    "\<exists>evs. trace a' = trace a @ EventNotify # evs"
    using Stop_success [of a pos stat n r a'] by simp_all
next
  assume "\<not> stop_thread_flag a \<and> worker_thread a
        \<and> Stop pos stat n a = Some (Inr (r, a'))"
  then show "\<exists>w evs. WorkerThread_from pos stat n (Stop_request a) = Inr (Exited w)
           \<and> trace a' = trace w @ ThreadJoin # evs"
    using Stop_success [of a pos stat n r a'] by simp
next
  assume "\<not> stop_thread_flag a \<and> \<not> worker_thread a"
  then show "\<exists>b. Stop pos stat n a = Some (Inr (True, b))
           \<and> queue_event b = Event_Notify (queue_event a)
           \<and> trace b = trace a
               @ [EventNotify, LogDeleted (fst (GetApplicationTypeName a)) (app_name a)]"
    using Stop_with_no_worker [of a pos stat n] by blast
next
  assume h: "\<not> stop_thread_flag a \<and> worker_thread a"
  show e: "WorkerThread_from AtLoopTest stat n (Stop_request a)
             = Inr (Exited (Stop_request a))"
    by (rule worker_at_loop_test_exits)
  from h Stop_after_exit [OF _ _ e]
  show "\<exists>b. Stop AtLoopTest stat n a = Some (Inr (True, b))
              \<and> queue_event b = Event_Notify (queue_event a)
              \<and> trace b = trace a
                  @ [EventNotify, ThreadJoin,
                     LogDeleted (fst (GetApplicationTypeName a)) (app_name a)]"
    by (auto simp: Stop_request_fields)
next
  assume h: "\<not> stop_thread_flag a \<and> worker_thread a
        \<and> list_all (\<lambda>p. packet_session_info p \<noteq> None) (take 1 (incoming_packet_queue a))"
  then obtain w where
    b: "WorkerThread_body False (Stop_request a) = Inr (Stepped w)" and
    f: "stop_thread_flag w" and
    e: "WorkerThread_from InWait stat n (Stop_request a) = Inr (Exited w)"
    using worker_in_wait_exits [of a stat n] by blast
  note i = WorkerThread_body_identity [OF b]
  from i(5) obtain evs where t: "trace w = trace a @ [EventNotify, EventWait] @ evs"
    by (auto simp: Stop_request_fields)
  have q: "Event_Wait (Event_Notify (queue_event a)) = Some (queue_event w)"
    using WorkerThread_body_Stepped(1) [OF b] by (simp add: Stop_request_fields)
  from h Stop_after_exit [OF _ _ e f] i(1,2,3)
  obtain b' where
    "Stop InWait stat n a = Some (Inr (True, b'))" "queue_event b' = queue_event w"
    "trace b' = trace w
       @ [ThreadJoin, LogDeleted (fst (GetApplicationTypeName a)) (app_name a)]"
    by (auto simp: Stop_request_fields)
  with b e q t
  show "\<exists>w evs b. WorkerThread_body False (Stop_request a) = Inr (Stepped w)
           \<and> WorkerThread_from InWait stat n (Stop_request a) = Inr (Exited w)
           \<and> Event_Wait (Event_Notify (queue_event a)) = Some (queue_event w)
           \<and> trace w = trace a @ [EventNotify, EventWait] @ evs
           \<and> Stop InWait stat n a = Some (Inr (True, b))
           \<and> queue_event b = queue_event w
           \<and> trace b = trace w
               @ [ThreadJoin, LogDeleted (fst (GetApplicationTypeName a)) (app_name a)]"
    by blast
qed

theorem Stop_sets_flag_signals_joins_witness:
  "stop_thread_flag app_stopped
   \<and> Stop AtLoopTest (\<lambda>n. False) 0 app_stopped = Some (Inr (True, app_stopped))
   \<and> \<not> stop_thread_flag app_running \<and> worker_thread app_running
   \<and> list_all (\<lambda>p. packet_session_info p \<noteq> None) (take 1 (incoming_packet_queue app_running))
   \<and> Stop AtLoopTest (\<lambda>n. False) 0 app_running = Some (Inr (True, app_stopped))
   \<and> pending (queue_event app_stopped) = 1
   \<and> Stop InWait (\<lambda>n. False) 0 app_running = Some (Inr (True, app_stopped_woken))
   \<and> pending (queue_event app_stopped_woken) = 0
   \<and> stop_thread_flag app_stopped_woken \<and> \<not> worker_thread app_stopped_woken
   \<and> (\<exists>w evs. WorkerThread_from InWait (\<lambda>n. False) 0 (Stop_request app_running)
                  = Inr (Exited w)
          \<and> trace app_stopped_woken = trace w @ ThreadJoin # evs)
   \<and> \<not> stop_thread_flag (app0 Counting) \<and> \<not> worker_thread (app0 Counting)
   \<and> (\<exists>b. Stop InWait (\<lambda>n. False) 0 (app0 Counting) = Some (Inr (True, b))
          \<and> trace b = [EventNotify, LogDeleted ''CMAF Application'' ''app''])"
proof -
  have h1: "stop_thread_flag app_stopped"
    and h2: "\<not> stop_thread_flag app_running \<and> worker_thread app_running"
    and h3: "list_all (\<lambda>p. packet_session_info p \<noteq> None)
               (take 1 (incoming_packet_queue app_running))"
    and h4: "\<not> stop_thread_flag (app0 Counting) \<and> \<not> worker_thread (app0 Counting)"
    and p: "pending (queue_event app_stopped) = 1"
       "pending (queue_event app_stopped_woken) = 0"
    and t: "trace (app0 Counting) = []"
       "fst (GetApplicationTypeName (app0 Counting)) = ''CMAF Application''"
       "app_name (app0 Counting) = ''app''"
    by (simp_all add: GetApplicationTypeName_def example_defs)
  from Stop_sets_flag_signals_joins [where a = app_stopped and pos = AtLoopTest
      and stat = "\<lambda>n. False" and n = 0] h1
  have c1: "Stop AtLoopTest (\<lambda>n. False) 0 app_stopped = Some (Inr (True, app_stopped))"
    by blast
  from Stop_sets_flag_signals_joins [where a = app_running and pos = InWait
      and stat = "\<lambda>n. False" and n = 0 and r = True and a' = app_stopped_woken]
    h2 eval_stop_woken
  have c2: "stop_thread_flag app_stopped_woken \<and> \<not> worker_thread app_stopped_woken
     \<and> (\<exists>w evs. WorkerThread_from InWait (\<lambda>n. False) 0 (Stop_request app_running)
                  = Inr (Exited w)
          \<and> trace app_stopped_woken = trace w @ ThreadJoin # evs)"
    by blast
  from Stop_sets_flag_signals_joins [where a = "app0 Counting" and pos = InWait
      and stat = "\<lambda>n. False" and n = 0] h4
  have c3: "\<exists>b. Stop InWait (\<lambda>n. False) 0 (app0 Counting) = Some (Inr (True, b))
          \<and> trace b = [EventNotify, LogDeleted ''CMAF Application'' ''app'']"
    unfolding t by auto
  from h1 h2 h3 h4 p c1 c2 c3 eval_stop eval_stop_woken show ?thesis by blast
qed


section \<open>Stream deletion and the registry\<close>

text \<open>
  C4: when the id of the descriptor is registered, \<open>OnDeleteStream\<close> calls the
  subclass deletion hook first, with the registry not yet touched; it returns what the
  hook returned; only when the hook succeeded does it erase the entry, and it calls the
  stream's \<open>Stop\<close> after the erase. The trace gives the order.
\<close>

theorem OnDeleteStream_order:
  "streams a (GetId i) = Some s \<Longrightarrow>
     \<exists>a'. OnDeleteStream sub a (Some i) = Inr (DeleteStream sub (Some i), a')
        \<and> trace a' =
            trace a @ [Lock StreamMapMutex, Unlock StreamMapMutex, CallDeleteStream (Some i)]
              @ (if DeleteStream sub (Some i)
                 then [Lock StreamMapMutex, MapErase (GetId i), StreamStop s,
                       Unlock StreamMapMutex]
                 else [])
        \<and> streams a' =
            (if DeleteStream sub (Some i) then (streams a)(GetId i := None) else streams a)"
  by (simp add: OnDeleteStream_def Let_def emit_def)

theorem OnDeleteStream_order_witness:
  "streams app_created7 (GetId info7) = Some 2
   \<and> (\<exists>a'. OnDeleteStream sub_ok app_created7 (Some info7) = Inr (True, a')
          \<and> trace a' =
              trace app_created7
                @ [Lock StreamMapMutex, Unlock StreamMapMutex, CallDeleteStream (Some info7),
                   Lock StreamMapMutex, MapErase 7, StreamStop 2, Unlock StreamMapMutex]
          \<and> streams a' 7 = None)"
proof -
  have h: "streams app_created7 (GetId info7) = Some 2"
    by (simp add: GetId_def example_defs)
  have d: "DeleteStream sub_ok (Some info7) = True" and g: "GetId info7 = 7"
    by (simp_all add: GetId_def example_defs)
  from OnDeleteStream_order [OF h, where sub = sub_ok] h show ?thesis
    unfolding d g by auto
qed

text \<open>
  C5: \<open>OnDeleteStream\<close> returns false and leaves the registry, and the rest of the
  application's state, as it was when the id is not registered and when the id is
  registered but the deletion hook fails; \<open>OnCreateStream\<close> returns false and leaves
  them as they were when the creation hook yields null. Only the trace grows.
\<close>

theorem failure_leaves_registry:
  "(streams a (GetId i) = None \<longrightarrow>
      OnDeleteStream sub a (Some i) =
        Inr (False, a\<lparr>trace := trace a @ [Lock StreamMapMutex,
                          LogDeleteFailed (GetName i) (GetId i), Unlock StreamMapMutex]\<rparr>))
   \<and> (streams a (GetId i) = Some s \<and> DeleteStream sub (Some i) = False \<longrightarrow>
      OnDeleteStream sub a (Some i) =
        Inr (False, a\<lparr>trace := trace a @ [Lock StreamMapMutex, Unlock StreamMapMutex,
                          CallDeleteStream (Some i)]\<rparr>))
   \<and> (CreateStream sub info (GetThreadCount (config a)) = None \<longrightarrow>
      OnCreateStream sub a info =
        Inr (False, a\<lparr>trace := trace a
                          @ [CallCreateStream info (GetThreadCount (config a))]\<rparr>))"
  by (simp add: OnDeleteStream_def OnCreateStream_def Let_def emit_def)

theorem failure_leaves_registry_witness:
  "streams (app0 Counting) (GetId info7) = None
   \<and> OnDeleteStream sub_ok (app0 Counting) (Some info7) =
       Inr (False, (app0 Counting)\<lparr>trace := [Lock StreamMapMutex,
                      LogDeleteFailed ''live'' 7, Unlock StreamMapMutex]\<rparr>)
   \<and> streams app_created7 (GetId info7) = Some 2
   \<and> DeleteStream sub_fail (Some info7) = False
   \<and> OnDeleteStream sub_fail app_created7 (Some info7) =
       Inr (False, app_created7\<lparr>trace := trace app_created7
                      @ [Lock StreamMapMutex, Unlock StreamMapMutex,
                         CallDeleteStream (Some info7)]\<rparr>)
   \<and> CreateStream sub_fail (Some info7) (GetThreadCount (config app_created7)) = None
   \<and> OnCreateStream sub_fail app_created7 (Some info7) =
       Inr (False, app_created7\<lparr>trace := trace app_created7
                      @ [CallCreateStream (Some info7) 4]\<rparr>)"
proof -
  have h1: "streams (app0 Counting) (GetId info7) = None"
    and h2: "streams app_created7 (GetId info7) = Some 2
             \<and> DeleteStream sub_fail (Some info7) = False"
    and h3: "CreateStream sub_fail (Some info7) (GetThreadCount (config app_created7)) = None"
    by (simp_all add: GetId_def example_defs)
  have n: "GetName info7 = ''live''" and g: "GetId info7 = 7"
    and t0: "trace (app0 Counting) = []"
    and w: "GetThreadCount (config app_created7) = 4"
    by (simp_all add: GetName_def GetId_def GetThreadCount_def example_defs)
  from failure_leaves_registry [where a = "app0 Counting" and i = info7 and sub = sub_ok] h1
  have c1: "OnDeleteStream sub_ok (app0 Counting) (Some info7) =
       Inr (False, (app0 Counting)\<lparr>trace := [Lock StreamMapMutex,
                      LogDeleteFailed ''live'' 7, Unlock StreamMapMutex]\<rparr>)"
    by (simp add: n g t0)
  from failure_leaves_registry [where a = app_created7 and i = info7 and s = 2 and sub = sub_fail] h2
  have c2: "OnDeleteStream sub_fail app_created7 (Some info7) =
       Inr (False, app_created7\<lparr>trace := trace app_created7
                      @ [Lock StreamMapMutex, Unlock StreamMapMutex,
                         CallDeleteStream (Some info7)]\<rparr>)"
    by blast
  from failure_leaves_registry [where a = app_created7 and sub = sub_fail and info = "Some info7"] h3
  have c3: "OnCreateStream sub_fail app_created7 (Some info7) =
       Inr (False, app_created7\<lparr>trace := trace app_created7
                      @ [CallCreateStream (Some info7) 4]\<rparr>)"
    by (simp add: w)
  from h1 h2 h3 c1 c2 c3 show ?thesis by blast
qed

text \<open>
  C6: after an \<open>OnCreateStream\<close> that returned true, \<open>GetStream\<close> for the id of the
  descriptor returns the (non-null) stream the creation hook produced; after an
  \<open>OnDeleteStream\<close> that returned true, \<open>GetStream\<close> for that id returns null.
\<close>

theorem registry_round_trip:
  "(OnCreateStream sub a (Some i) = Inr (True, a') \<longrightarrow>
      fst (GetStream a' (GetId i)) = CreateStream sub (Some i) (GetThreadCount (config a))
      \<and> fst (GetStream a' (GetId i)) \<noteq> None)
   \<and> (OnDeleteStream sub a (Some i) = Inr (True, a'') \<longrightarrow>
      fst (GetStream a'' (GetId i)) = None)"
  by (auto simp: OnDeleteStream_def OnCreateStream_def GetStream_def Let_def emit_def
      split: option.splits if_splits)

theorem registry_round_trip_witness:
  "OnCreateStream sub_ok (app0 Counting) (Some info7) = Inr (True, app_created7)
   \<and> fst (GetStream app_created7 7) = Some 2
   \<and> OnDeleteStream sub_ok app_created7 (Some info7) = Inr (True, app_deleted7)
   \<and> fst (GetStream app_deleted7 7) = None"
proof -
  have g: "GetId info7 = 7"
    and k: "CreateStream sub_ok (Some info7) (GetThreadCount (config (app0 Counting))) = Some 2"
    by (simp_all add: GetId_def example_defs)
  from registry_round_trip [where sub = sub_ok and a = "app0 Counting" and i = info7
      and a' = app_created7] eval_create7
  have c1: "fst (GetStream app_created7 7) = Some 2"
    by (simp add: g k)
  from registry_round_trip [where sub = sub_ok and a = app_created7 and i = info7
      and a'' = app_deleted7] eval_delete7
  have c2: "fst (GetStream app_deleted7 7) = None"
    by (simp add: g)
  from eval_create7 eval_delete7 c1 c2 show ?thesis by blast
qed


section \<open>Routing of dequeued frames\<close>

text \<open>
  C7: the drain step takes the oldest frame item from its queue. It calls the ingest
  operation of a stream only when the item's stream reference and payload are both
  non-null and the registry has a stream under the reference's id, and then of exactly
  that stream. Otherwise the frame is dropped: the step ends without an error, and in
  every case nothing but the queue it was taken from (and the trace) differs
  afterwards. This holds for video and for audio frames.
\<close>

theorem frame_routing:
  "(video_stream_queue a = d # rest \<longrightarrow>
      drain_video a =
        Inr (a\<lparr>video_stream_queue := rest,
               trace := trace a @ [Lock VideoQueueGuard, Unlock VideoQueueGuard]
                 @ (if video_stream d = None \<or> video_media_packet d = None then []
                    else [LockShared StreamMapMutex, UnlockShared StreamMapMutex]
                      @ (case streams a (GetId (the (video_stream d))) of
                           None \<Rightarrow> []
                         | Some s \<Rightarrow> [StreamSendVideoFrame s (video_media_packet d)]))\<rparr>))
   \<and> (audio_stream_queue a = d' # rest' \<longrightarrow>
      drain_audio a =
        Inr (a\<lparr>audio_stream_queue := rest',
               trace := trace a @ [Lock AudioQueueGuard, Unlock AudioQueueGuard]
                 @ (if audio_stream d' = None \<or> audio_media_packet d' = None then []
                    else [LockShared StreamMapMutex, UnlockShared StreamMapMutex]
                      @ (case streams a (GetId (the (audio_stream d'))) of
                           None \<Rightarrow> []
                         | Some s \<Rightarrow> [StreamSendAudioFrame s (audio_media_packet d')]))\<rparr>))"
proof (intro conjI impI)
  assume "video_stream_queue a = d # rest"
  then show "drain_video a =
        Inr (a\<lparr>video_stream_queue := rest,
               trace := trace a @ [Lock VideoQueueGuard, Unlock VideoQueueGuard]
                 @ (if video_stream d = None \<or> video_media_packet d = None then []
                    else [LockShared StreamMapMutex, UnlockShared StreamMapMutex]
                      @ (case streams a (GetId (the (video_stream d))) of
                           None \<Rightarrow> []
                         | Some s \<Rightarrow> [StreamSendVideoFrame s (video_media_packet d)]))\<rparr>)"
    by (auto simp: drain_video_def PopVideoStreamData_def SendVideoFrame_def GetStream_def
        Let_def emit_def split: option.splits)
next
  assume "audio_stream_queue a = d' # rest'"
  then show "drain_audio a =
        Inr (a\<lparr>audio_stream_queue := rest',
               trace := trace a @ [Lock AudioQueueGuard, Unlock AudioQueueGuard]
                 @ (if audio_stream d' = None \<or> audio_media_packet d' = None then []
                    else [LockShared StreamMapMutex, UnlockShared StreamMapMutex]
                      @ (case streams a (GetId (the (audio_stream d'))) of
                           None \<Rightarrow> []
                         | Some s \<Rightarrow> [StreamSendAudioFrame s (audio_media_packet d')]))\<rparr>)"
    by (auto simp: drain_audio_def PopAudioStreamData_def SendAudioFrame_def GetStream_def
        Let_def emit_def split: option.splits)
qed

theorem frame_routing_witness:
  "video_stream_queue app_with7_frames = [video_item7]
   \<and> audio_stream_queue app_with7_frames = [audio_item7]
   \<and> drain_video app_with7_frames =
       Inr (app_with7_frames\<lparr>video_stream_queue := [],
              trace := trace app_with7_frames
                @ [Lock VideoQueueGuard, Unlock VideoQueueGuard,
                   LockShared StreamMapMutex, UnlockShared StreamMapMutex,
                   StreamSendVideoFrame 1 (Some packet0)]\<rparr>)
   \<and> drain_audio app_with7_frames =
       Inr (app_with7_frames\<lparr>audio_stream_queue := [],
              trace := trace app_with7_frames
                @ [Lock AudioQueueGuard, Unlock AudioQueueGuard,
                   LockShared StreamMapMutex, UnlockShared StreamMapMutex,
                   StreamSendAudioFrame 1 (Some packet0)]\<rparr>)
   \<and> video_stream_queue app_one_video = [video_item7]
   \<and> drain_video app_one_video =
       Inr (app_one_video\<lparr>video_stream_queue := [],
              trace := trace app_one_video
                @ [Lock VideoQueueGuard, Unlock VideoQueueGuard,
                   LockShared StreamMapMutex, UnlockShared StreamMapMutex]\<rparr>)"
proof -
  have h1: "video_stream_queue app_with7_frames = [video_item7]"
    and h2: "audio_stream_queue app_with7_frames = [audio_item7]"
    and h3: "video_stream_queue app_one_video = [video_item7]"
    by (simp_all add: example_defs)
  have f: "video_stream video_item7 = Some info7"
      "video_media_packet video_item7 = Some packet0"
      "audio_stream audio_item7 = Some info7"
      "audio_media_packet audio_item7 = Some packet0"
      "GetId info7 = 7" "streams app_with7_frames 7 = Some 1"
      "streams app_one_video 7 = None"
    by (simp_all add: GetId_def example_defs)
  from frame_routing [where a = app_with7_frames and d = video_item7 and rest = "[]"
      and d' = audio_item7 and rest' = "[]"] h1 h2
  have c1: "drain_video app_with7_frames =
       Inr (app_with7_frames\<lparr>video_stream_queue := [],
              trace := trace app_with7_frames
                @ [Lock VideoQueueGuard, Unlock VideoQueueGuard,
                   LockShared StreamMapMutex, UnlockShared StreamMapMutex,
                   StreamSendVideoFrame 1 (Some packet0)]\<rparr>)"
    and c2: "drain_audio app_with7_frames =
       Inr (app_with7_frames\<lparr>audio_stream_queue := [],
              trace := trace app_with7_frames
                @ [Lock AudioQueueGuard, Unlock AudioQueueGuard,
                   LockShared StreamMapMutex, UnlockShared StreamMapMutex,
                   StreamSendAudioFrame 1 (Some packet0)]\<rparr>)"
    by (simp_all add: f)
  from frame_routing [where a = app_one_video and d = video_item7 and rest = "[]"] h3
  have c3: "drain_video app_one_video =
       Inr (app_one_video\<lparr>video_stream_queue := [],
              trace := trace app_one_video
                @ [Lock VideoQueueGuard, Unlock VideoQueueGuard,
                   LockShared StreamMapMutex, UnlockShared StreamMapMutex]\<rparr>)"
    by (simp add: f)
  from h1 h2 h3 c1 c2 c3 show ?thesis by blast
qed


section \<open>Producers\<close>

text \<open>
  C9: every enqueue that returns (for a frame: stream and packet non-null and the
  packet's track present in the stream; for an incoming packet: always) returns true,
  has appended the item at the end of its queue, and has done so in this order: lock
  the queue guard, push, unlock the queue guard, and only then one \<open>Notify\<close> on the
  shared wake event.
\<close>

theorem enqueue_then_signal:
  "(GetTrack s (packet_track_id p) = Some t \<longrightarrow>
      (\<exists>a'. OnSendVideoFrame a (Some s) (Some p) = Inr (True, a'))
      \<and> (\<exists>a'. OnSendAudioFrame a (Some s) (Some p) = Inr (True, a')))
   \<and> (OnSendVideoFrame a st mp = Inr (r, a') \<longrightarrow>
      r = True
      \<and> video_stream_queue a' =
          video_stream_queue a @ [\<lparr>video_stream = st, video_media_packet = mp\<rparr>]
      \<and> queue_event a' = Event_Notify (queue_event a)
      \<and> trace a' = trace a @ [Lock VideoQueueGuard,
            PushVideo \<lparr>video_stream = st, video_media_packet = mp\<rparr>,
            Unlock VideoQueueGuard, EventNotify])
   \<and> (OnSendAudioFrame a st mp = Inr (r, a') \<longrightarrow>
      r = True
      \<and> audio_stream_queue a' =
          audio_stream_queue a @ [\<lparr>audio_stream = st, audio_media_packet = mp\<rparr>]
      \<and> queue_event a' = Event_Notify (queue_event a)
      \<and> trace a' = trace a @ [Lock AudioQueueGuard,
            PushAudio \<lparr>audio_stream = st, audio_media_packet = mp\<rparr>,
            Unlock AudioQueueGuard, EventNotify])
   \<and> PushIncomingPacket a session_info data =
       (True, a\<lparr>incoming_packet_queue :=
                   incoming_packet_queue a
                     @ [\<lparr>packet_session_info = session_info, packet_data = data\<rparr>],
                 queue_event := Event_Notify (queue_event a),
                 trace := trace a @ [Lock IncomingPacketQueueGuard,
                   PushPacket \<lparr>packet_session_info = session_info, packet_data = data\<rparr>,
                   Unlock IncomingPacketQueueGuard, EventNotify]\<rparr>)"
  by (auto simp: OnSendVideoFrame_def OnSendAudioFrame_def PushIncomingPacket_def
      Let_def emit_def split: option.splits)

theorem enqueue_then_signal_witness:
  "GetTrack info7 (packet_track_id packet0) = Some track0
   \<and> OnSendVideoFrame (app0 Counting) (Some info7) (Some packet0) = Inr (True, app_one_video)
   \<and> video_stream_queue app_one_video = [video_item7]
   \<and> trace app_one_video =
       [Lock VideoQueueGuard, PushVideo video_item7, Unlock VideoQueueGuard, EventNotify]
   \<and> OnSendAudioFrame (app0 Counting) (Some info7) (Some packet0) = Inr (True, app_one_audio)
   \<and> audio_stream_queue app_one_audio = [audio_item7]
   \<and> trace app_one_audio =
       [Lock AudioQueueGuard, PushAudio audio_item7, Unlock AudioQueueGuard, EventNotify]"
proof -
  have h: "GetTrack info7 (packet_track_id packet0) = Some track0"
    by (simp add: GetTrack_def example_defs)
  have e: "video_stream_queue (app0 Counting) = []" "audio_stream_queue (app0 Counting) = []"
      "trace (app0 Counting) = []"
    by (simp_all add: example_defs)
  from enqueue_then_signal [where a = "app0 Counting" and st = "Some info7"
      and mp = "Some packet0" and r = True and a' = app_one_video] eval_send_video
  have c1: "video_stream_queue app_one_video = [video_item7]
     \<and> trace app_one_video =
       [Lock VideoQueueGuard, PushVideo video_item7, Unlock VideoQueueGuard, EventNotify]"
    by (simp add: e video_item7_def)
  from enqueue_then_signal [where a = "app0 Counting" and st = "Some info7"
      and mp = "Some packet0" and r = True and a' = app_one_audio] eval_send_audio
  have c2: "audio_stream_queue app_one_audio = [audio_item7]
     \<and> trace app_one_audio =
       [Lock AudioQueueGuard, PushAudio audio_item7, Unlock AudioQueueGuard, EventNotify]"
    by (simp add: e audio_item7_def)
  from h eval_send_video eval_send_audio c1 c2 show ?thesis by blast
qed


section \<open>Worker count\<close>




section \<open>When the dispatch loop waits\<close>

text \<open>
  C3, as stated (the loop blocks on the wake event only when the previous iteration
  drained nothing), does not hold. After one video frame was submitted to a new
  application, the first pass of the loop body takes it from the video queue, and the
  next pass blocks in \<open>Wait\<close> all the same. This is so for a counting and for a binary
  wake event.
\<close>

theorem WorkerThread_blocks_after_drain_counterexample:
  "OnSendVideoFrame (app0 Counting) (Some info7) (Some packet0) = Inr (True, app_one_video)
   \<and> video_stream_queue app_one_video = [video_item7]
   \<and> WorkerThread_body False app_one_video = Inr (Stepped app_drained)
   \<and> video_stream_queue app_drained = []
   \<and> WorkerThread_body False app_drained = Inr (Blocked app_drained)
   \<and> OnSendVideoFrame (app0 Binary) (Some info7) (Some packet0)
       = Inr (True, app_one_video_binary)
   \<and> video_stream_queue app_one_video_binary = [video_item7]
   \<and> WorkerThread_body False app_one_video_binary = Inr (Stepped app_drained_binary)
   \<and> video_stream_queue app_drained_binary = []
   \<and> WorkerThread_body False app_drained_binary = Inr (Blocked app_drained_binary)"
  by (simp add: eval_send_video eval_body_drains eval_body_blocks eval_send_video_binary
      eval_body_drains_binary eval_body_blocks_binary)
     (simp add: example_defs)

text \<open>
  C3, amended: every pass of the loop body calls \<open>Wait\<close> on the wake event before it
  drains, whatever the previous pass drained. The pass blocks exactly when the event
  holds no signal; otherwise it consumes a signal and takes at most the oldest item from
  each of the three queues. When the event counts its signals and holds at least one
  for every queued item (which the producers keep up), a pass does not block while a
  queue is non-empty, and the loop, run with the stop flag clear, no further signal and
  no null session among the queued packets, empties all three queues before it blocks.
\<close>

theorem WorkerThread_waits_every_pass:
  "(WorkerThread_body elapsed a = Inr (Blocked (log_stats elapsed a))
      \<longleftrightarrow> pending (queue_event a) = 0)
   \<and> (WorkerThread_body elapsed a = Inr (Stepped a') \<longrightarrow>
        Event_Wait (queue_event a) = Some (queue_event a')
        \<and> video_stream_queue a' = tl (video_stream_queue a)
        \<and> audio_stream_queue a' = tl (audio_stream_queue a)
        \<and> incoming_packet_queue a' = tl (incoming_packet_queue a))
   \<and> (kind (queue_event a) = Counting \<and> backlog a \<le> pending (queue_event a)
        \<and> 0 < backlog a \<longrightarrow> WorkerThread_body elapsed a \<noteq> Inr (Blocked b))
   \<and> (\<not> stop_thread_flag a \<and> kind (queue_event a) = Counting
        \<and> backlog a \<le> pending (queue_event a)
        \<and> list_all (\<lambda>p. packet_session_info p \<noteq> None) (incoming_packet_queue a) \<longrightarrow>
        (\<exists>a'. WorkerThread c n a = Inr (Waiting a') \<and> backlog a' = 0))"
proof (intro conjI impI)
  show "WorkerThread_body elapsed a = Inr (Blocked (log_stats elapsed a))
      \<longleftrightarrow> pending (queue_event a) = 0"
    using WorkerThread_body_no_signal [of a elapsed]
      WorkerThread_body_Blocked(1) [of elapsed a "log_stats elapsed a"] by blast
next
  assume s: "WorkerThread_body elapsed a = Inr (Stepped a')"
  show "Event_Wait (queue_event a) = Some (queue_event a')"
    by (rule WorkerThread_body_Stepped(1) [OF s])
  show "video_stream_queue a' = tl (video_stream_queue a)"
    by (rule WorkerThread_body_Stepped(2) [OF s])
  show "audio_stream_queue a' = tl (audio_stream_queue a)"
    by (rule WorkerThread_body_Stepped(3) [OF s])
  show "incoming_packet_queue a' = tl (incoming_packet_queue a)"
    by (rule WorkerThread_body_Stepped(4) [OF s])
next
  assume "kind (queue_event a) = Counting \<and> backlog a \<le> pending (queue_event a)
        \<and> 0 < backlog a"
  then have "0 < pending (queue_event a)" by simp
  then show "WorkerThread_body elapsed a \<noteq> Inr (Blocked b)"
    by (rule WorkerThread_body_signal)
next
  assume h: "\<not> stop_thread_flag a \<and> kind (queue_event a) = Counting
        \<and> backlog a \<le> pending (queue_event a)
        \<and> list_all (\<lambda>p. packet_session_info p \<noteq> None) (incoming_packet_queue a)"
  then obtain r where r: "WorkerThread c n a = Inr r"
    using WorkerThread_runs_to_wait [of a c n] by blast
  from WorkerThread_drains [OF r] h obtain a' where "r = Waiting a'" "backlog a' = 0"
    by blast
  with r show "\<exists>a'. WorkerThread c n a = Inr (Waiting a') \<and> backlog a' = 0" by simp
qed

theorem WorkerThread_waits_every_pass_witness:
  "WorkerThread_body False app_one_video = Inr (Stepped app_drained)
   \<and> Event_Wait (queue_event app_one_video) = Some (queue_event app_drained)
   \<and> \<not> stop_thread_flag app_one_video
   \<and> kind (queue_event app_one_video) = Counting
   \<and> backlog app_one_video \<le> pending (queue_event app_one_video)
   \<and> 0 < backlog app_one_video
   \<and> list_all (\<lambda>p. packet_session_info p \<noteq> None) (incoming_packet_queue app_one_video)
   \<and> WorkerThread_body False app_one_video \<noteq> Inr (Blocked app_one_video)
   \<and> (\<exists>a'. WorkerThread (\<lambda>n. False) 0 app_one_video = Inr (Waiting a') \<and> backlog a' = 0)"
proof -
  have h: "\<not> stop_thread_flag app_one_video"
      "kind (queue_event app_one_video) = Counting"
      "backlog app_one_video \<le> pending (queue_event app_one_video)"
      "0 < backlog app_one_video"
      "list_all (\<lambda>p. packet_session_info p \<noteq> None) (incoming_packet_queue app_one_video)"
    by (simp_all add: backlog_def example_defs)
  from WorkerThread_waits_every_pass [where elapsed = False and a = app_one_video
      and a' = app_drained and b = app_one_video and c = "\<lambda>n. False" and n = 0]
    eval_body_drains h
  show ?thesis by blast
qed

end
